theory Spec2Isabelle
  imports Complex_Main
begin

section \<open>Numbers and errors\<close>

text \<open>
  Floats as the code meets them: finite values, each the real number it stands for, and
  the two infinities that \<^verbatim>\<open>BoxMatcher.__init__\<close> adds to the thresholds. NaN is left out.
  Comparisons are exact; the one rounding in the code, the cast of a threshold to the dtype
  of the similarity matrix, is the \<open>dtype\<close> below.
\<close>

datatype pyfloat = NegInf | Fin real | PosInf

instantiation pyfloat :: linorder
begin

fun less_eq_pyfloat :: "pyfloat \<Rightarrow> pyfloat \<Rightarrow> bool" where
  "less_eq_pyfloat NegInf y = True"
| "less_eq_pyfloat (Fin x) NegInf = False"
| "less_eq_pyfloat (Fin x) (Fin y) = (x \<le> y)"
| "less_eq_pyfloat (Fin x) PosInf = True"
| "less_eq_pyfloat PosInf PosInf = True"
| "less_eq_pyfloat PosInf y = False"

definition less_pyfloat :: "pyfloat \<Rightarrow> pyfloat \<Rightarrow> bool" where
  "less_pyfloat x y = (x \<le> y \<and> \<not> y \<le> x)"

instance
proof
  fix x y z :: pyfloat
  show "(x < y) = (x \<le> y \<and> \<not> y \<le> x)"
    by (simp add: less_pyfloat_def)
  show "x \<le> x"
    by (cases x) simp_all
  show "x \<le> y \<Longrightarrow> y \<le> z \<Longrightarrow> x \<le> z"
    by (cases x; cases y; cases z) simp_all
  show "x \<le> y \<Longrightarrow> y \<le> x \<Longrightarrow> x = y"
    by (cases x; cases y) simp_all
  show "x \<le> y \<or> y \<le> x"
    by (cases x; cases y) auto
qed

end

text \<open>The exceptions the modelled code can raise, each with its message tag.\<close>

datatype error = ValueError string | IndexError string

section \<open>BoxMatcher: construction\<close>

record BoxMatcher =
  match_values :: "int list"
  thresholds :: "pyfloat list"
  force_match_for_each_col :: bool

text \<open>
  \<^verbatim>\<open>BoxMatcher.__init__\<close> (box\_matcher.py, lines 72 to 95). Python's \<^verbatim>\<open>sorted\<close> is
  \<^const>\<open>sort\<close>; the two \<^verbatim>\<open>raise ValueError\<close> statements are the two \<^const>\<open>Inl\<close>
  branches, in the source's order. The calls into the framework before them (the version
  check and the base class constructor) take no part in the argument checks and are
  taken to return.
\<close>

definition BoxMatcher_init :: "pyfloat list \<Rightarrow> int list \<Rightarrow> bool \<Rightarrow> error + BoxMatcher" where
  "BoxMatcher_init ths mvs force =
     (if sort ths \<noteq> ths then Inl (ValueError ''threshold must be sorted'')
      else if length mvs \<noteq> length ths + 1
        then Inl (ValueError ''len(match_values) must be len(thresholds) + 1'')
      else Inr \<lparr>match_values = mvs,
                thresholds = NegInf # ths @ [PosInf],
                force_match_for_each_col = force\<rparr>)"

section \<open>Tensors and the framework operations\<close>

text \<open>
  A tensor carries its static shape and its entries as nested lists, outermost axis first.
  The operations below are those of \<^verbatim>\<open>keras.ops\<close> that \<^verbatim>\<open>BoxMatcher.call\<close> uses, each on
  the ranks it is used at. They build their result entry by entry from the shape
  (\<open>tabulate2\<close>, \<open>tabulate3\<close>), reading the arguments by index. A reduction along an axis of
  size zero raises, as NumPy's does; \<open>argmax_list\<close> returns the first index of the
  greatest element. \<open>concatenate\<close>, \<open>logical_and\<close> and \<open>where_t\<close> take the shape of their
  first argument: the code calls them on tensors of equal shape (up to the last axis for
  \<open>concatenate\<close>).
\<close>

datatype 'a tensor1 = Tensor1 nat "'a list"
datatype 'a tensor2 = Tensor2 nat nat "'a list list"
datatype 'a tensor3 = Tensor3 nat nat nat "'a list list list"

fun shape2 :: "'a tensor2 \<Rightarrow> nat \<times> nat" where
  "shape2 (Tensor2 n m xs) = (n, m)"

fun shape3 :: "'a tensor3 \<Rightarrow> nat \<times> nat \<times> nat" where
  "shape3 (Tensor3 b n m xs) = (b, n, m)"

fun at2 :: "'a tensor2 \<Rightarrow> nat \<Rightarrow> nat \<Rightarrow> 'a" where
  "at2 (Tensor2 n m xs) i j = xs ! i ! j"

fun at3 :: "'a tensor3 \<Rightarrow> nat \<Rightarrow> nat \<Rightarrow> nat \<Rightarrow> 'a" where
  "at3 (Tensor3 b n m xs) i j k = xs ! i ! j ! k"

definition tabulate2 :: "nat \<Rightarrow> nat \<Rightarrow> (nat \<Rightarrow> nat \<Rightarrow> 'a) \<Rightarrow> 'a tensor2" where
  "tabulate2 n m f = Tensor2 n m (map (\<lambda>i. map (f i) [0..<m]) [0..<n])"

definition tabulate3 :: "nat \<Rightarrow> nat \<Rightarrow> nat \<Rightarrow> (nat \<Rightarrow> nat \<Rightarrow> nat \<Rightarrow> 'a) \<Rightarrow> 'a tensor3" where
  "tabulate3 b n m f = Tensor3 b n m (map (\<lambda>i. map (\<lambda>j. map (f i j) [0..<m]) [0..<n]) [0..<b])"

fun argmax_list :: "'a::linorder list \<Rightarrow> nat" where
  "argmax_list [] = 0"
| "argmax_list [x] = 0"
| "argmax_list (x # xs) = (let i = argmax_list xs in if x < xs ! i then Suc i else 0)"


text \<open>
  The argument of \<^verbatim>\<open>call\<close> is a matrix \<open>[num_rows, num_cols]\<close> or a batch
  \<open>[batch_size, num_rows, num_cols]\<close>; each of its two results is a vector or a matrix.
\<close>

datatype similarity = Rank2 "pyfloat tensor2" | Rank3 "pyfloat tensor3"

datatype 'a matched = Vec "'a tensor1" | Mat "'a tensor2"

definition zeros :: "nat \<Rightarrow> nat \<Rightarrow> int tensor2" where
  "zeros n m = tabulate2 n m (\<lambda>i j. 0)"

definition ones :: "nat \<Rightarrow> nat \<Rightarrow> int tensor2" where
  "ones n m = tabulate2 n m (\<lambda>i j. 1)"

definition ones3 :: "nat \<Rightarrow> nat \<Rightarrow> nat \<Rightarrow> pyfloat tensor3" where
  "ones3 b n m = tabulate3 b n m (\<lambda>i j k. Fin 1)"

fun negative_float :: "pyfloat \<Rightarrow> pyfloat" where
  "negative_float NegInf = PosInf"
| "negative_float (Fin x) = Fin (- x)"
| "negative_float PosInf = NegInf"

fun negative3 :: "pyfloat tensor3 \<Rightarrow> pyfloat tensor3" where
  "negative3 (Tensor3 b n m xs) = tabulate3 b n m (\<lambda>i j k. negative_float (xs ! i ! j ! k))"

fun negative :: "int tensor2 \<Rightarrow> int tensor2" where
  "negative (Tensor2 n m xs) = tabulate2 n m (\<lambda>i j. - (xs ! i ! j))"

fun multiply :: "int \<Rightarrow> int tensor2 \<Rightarrow> int tensor2" where
  "multiply c (Tensor2 n m xs) = tabulate2 n m (\<lambda>i j. c * (xs ! i ! j))"

fun expand_dims :: "'a tensor2 \<Rightarrow> 'a tensor3" where
  "expand_dims (Tensor2 n m xs) = Tensor3 1 n m [xs]"

fun squeeze :: "'a tensor2 \<Rightarrow> error + 'a tensor1" where
  "squeeze (Tensor2 n m xs) =
     (if n = 1 then Inr (Tensor1 m (hd xs))
      else Inl (ValueError ''cannot squeeze an axis whose size is not 1''))"

fun concatenate :: "'a tensor3 \<Rightarrow> 'a tensor3 \<Rightarrow> 'a tensor3" where
  "concatenate (Tensor3 b n m xs) (Tensor3 b' n' m' ys) =
     tabulate3 b n (m + m') (\<lambda>i j k. if k < m then xs ! i ! j ! k else ys ! i ! j ! (k - m))"

definition max_list :: "'a::linorder list \<Rightarrow> 'a" where
  "max_list xs = fold max (tl xs) (hd xs)"

fun argmax_last :: "'a::linorder tensor3 \<Rightarrow> error + nat tensor2" where
  "argmax_last (Tensor3 b n m xs) =
     (if m = 0 then Inl (ValueError ''attempt to get argmax of an empty sequence'')
      else Inr (tabulate2 b n (\<lambda>i j. argmax_list (map (\<lambda>k. xs ! i ! j ! k) [0..<m]))))"

fun max_last :: "'a::linorder tensor3 \<Rightarrow> error + 'a tensor2" where
  "max_last (Tensor3 b n m xs) =
     (if m = 0 then Inl (ValueError ''zero-size array to reduction operation maximum'')
      else Inr (tabulate2 b n (\<lambda>i j. max_list (map (\<lambda>k. xs ! i ! j ! k) [0..<m]))))"

fun argmax_axis1 :: "'a::linorder tensor3 \<Rightarrow> error + nat tensor2" where
  "argmax_axis1 (Tensor3 b n m xs) =
     (if n = 0 then Inl (ValueError ''attempt to get argmax of an empty sequence'')
      else Inr (tabulate2 b m (\<lambda>i k. argmax_list (map (\<lambda>j. xs ! i ! j ! k) [0..<n]))))"

fun max_axis1 :: "'a::linorder tensor3 \<Rightarrow> error + 'a tensor2" where
  "max_axis1 (Tensor3 b n m xs) =
     (if n = 0 then Inl (ValueError ''zero-size array to reduction operation maximum'')
      else Inr (tabulate2 b m (\<lambda>i k. max_list (map (\<lambda>j. xs ! i ! j ! k) [0..<n]))))"

fun one_hot :: "nat tensor2 \<Rightarrow> nat \<Rightarrow> pyfloat tensor3" where
  "one_hot (Tensor2 b n xs) num_classes =
     tabulate3 b n num_classes (\<lambda>i j k. if xs ! i ! j = k then Fin 1 else Fin 0)"

fun greater_equal :: "pyfloat tensor2 \<Rightarrow> pyfloat \<Rightarrow> bool tensor2" where
  "greater_equal (Tensor2 n m xs) c = tabulate2 n m (\<lambda>i j. xs ! i ! j \<ge> c)"

fun less_t :: "pyfloat tensor2 \<Rightarrow> pyfloat \<Rightarrow> bool tensor2" where
  "less_t (Tensor2 n m xs) c = tabulate2 n m (\<lambda>i j. xs ! i ! j < c)"

fun logical_and :: "bool tensor2 \<Rightarrow> bool tensor2 \<Rightarrow> bool tensor2" where
  "logical_and (Tensor2 n m xs) (Tensor2 n' m' ys) =
     tabulate2 n m (\<lambda>i j. xs ! i ! j \<and> ys ! i ! j)"

fun where_t :: "bool tensor2 \<Rightarrow> 'a tensor2 \<Rightarrow> 'a tensor2 \<Rightarrow> 'a tensor2" where
  "where_t (Tensor2 n m cs) (Tensor2 n' m' xs) (Tensor2 n'' m'' ys) =
     tabulate2 n m (\<lambda>i j. if cs ! i ! j then xs ! i ! j else ys ! i ! j)"

fun cast_bool :: "pyfloat tensor2 \<Rightarrow> bool tensor2" where
  "cast_bool (Tensor2 n m xs) = tabulate2 n m (\<lambda>i j. xs ! i ! j \<noteq> Fin 0)"

fun cast_int32 :: "nat tensor2 \<Rightarrow> int tensor2" where
  "cast_int32 (Tensor2 n m xs) = tabulate2 n m (\<lambda>i j. int (xs ! i ! j))"

text \<open>
  \<^verbatim>\<open>ops.cast(low, match_dtype)\<close> rounds a threshold, a Python float, to the dtype of the
  similarity matrix. A dtype is given by its rounding function: the identity for float64
  (the type of Python floats), rounding to the nearest number with a 24-bit significand,
  ties to even, for float32 (exponents from -126, overflow to infinity).
\<close>

type_synonym dtype = "pyfloat \<Rightarrow> pyfloat"

definition cast :: "pyfloat \<Rightarrow> dtype \<Rightarrow> pyfloat" where
  "cast x dt = dt x"

definition float64 :: dtype where
  "float64 x = x"



text \<open>\<^verbatim>\<open>BoxMatcher._set_values_using_indicator\<close> (lines 239 to 250).\<close>

fun set_values_using_indicator :: "int tensor2 \<Rightarrow> bool tensor2 \<Rightarrow> int \<Rightarrow> int tensor2" where
  "set_values_using_indicator (Tensor2 n m xs) (Tensor2 n' m' indicator) val =
     tabulate2 n m (\<lambda>i j. if (if indicator ! i ! j then 1 else 0) = (0::int)
                            then xs ! i ! j else val)"

text \<open>\<^verbatim>\<open>self.match_values[-1]\<close>, which raises IndexError on an empty list.\<close>

definition last_item :: "'a list \<Rightarrow> error + 'a" where
  "last_item xs = (if xs = [] then Inl (IndexError ''list index out of range'') else Inr (last xs))"

text \<open>
  The two branches of \<^verbatim>\<open>ops.cond\<close> (lines 121 to 222), statement by statement, and
  \<^verbatim>\<open>call\<close> itself (lines 97 to 237). The loop over
  \<^verbatim>\<open>zip(self.match_values, self.thresholds[:-1], self.thresholds[1:])\<close> is the
  \<^const>\<open>fold\<close>. The argument \<open>match_dtype\<close> is the dtype of the similarity matrix, which
  the code reads from \<^verbatim>\<open>matched_vals.dtype\<close>.
\<close>

definition match_when_cols_are_empty :: "nat \<Rightarrow> nat \<Rightarrow> int tensor2 \<times> int tensor2" where
  "match_when_cols_are_empty batch_size num_rows =
     (let matched_columns = zeros batch_size num_rows;
          matched_values = negative (ones batch_size num_rows)
      in (matched_columns, matched_values))"

definition match_when_cols_are_non_empty ::
  "dtype \<Rightarrow> BoxMatcher \<Rightarrow> pyfloat tensor3 \<Rightarrow> nat \<Rightarrow> nat
     \<Rightarrow> error + (int tensor2 \<times> int tensor2)" where
  "match_when_cols_are_non_empty match_dtype self similarity_matrix batch_size num_rows =
     (let padded_similarity_matrix =
            concatenate similarity_matrix (negative3 (ones3 batch_size num_rows 1))
      in case argmax_last padded_similarity_matrix of Inl e \<Rightarrow> Inl e | Inr matched_columns \<Rightarrow>
         (case max_last padded_similarity_matrix of Inl e \<Rightarrow> Inl e | Inr matched_vals \<Rightarrow>
         (let matched_values =
                fold (\<lambda>(ind, low, high) matched_values.
                        let low_threshold = cast low match_dtype;
                            high_threshold = cast high match_dtype;
                            mask = logical_and (greater_equal matched_vals low_threshold)
                                               (less_t matched_vals high_threshold)
                        in set_values_using_indicator matched_values mask ind)
                     (zip (match_values self)
                          (zip (butlast (thresholds self)) (tl (thresholds self))))
                     (zeros batch_size num_rows)
          in if force_match_for_each_col self then
               (case argmax_axis1 padded_similarity_matrix of Inl e \<Rightarrow> Inl e | Inr matching_rows \<Rightarrow>
               (let column_to_row_match_mapping = one_hot matching_rows num_rows
                in case argmax_axis1 column_to_row_match_mapping of Inl e \<Rightarrow> Inl e
                   | Inr force_matched_columns \<Rightarrow>
                   (case max_axis1 column_to_row_match_mapping of Inl e \<Rightarrow> Inl e
                    | Inr force_max \<Rightarrow>
                    (let force_matched_column_mask = cast_bool force_max;
                         matched_columns' = where_t force_matched_column_mask
                                              force_matched_columns matched_columns
                     in case last_item (match_values self) of Inl e \<Rightarrow> Inl e
                        | Inr positive \<Rightarrow>
                          Inr (cast_int32 matched_columns',
                               where_t force_matched_column_mask
                                 (multiply positive (ones batch_size num_rows))
                                 matched_values)))))
             else Inr (cast_int32 matched_columns, matched_values))))"

definition call ::
  "dtype \<Rightarrow> BoxMatcher \<Rightarrow> similarity \<Rightarrow> error + (int matched \<times> int matched)" where
  "call match_dtype self similarity_matrix =
     (let (squeeze_result, similarity_matrix) =
            (case similarity_matrix of
               Rank2 m \<Rightarrow> (True, expand_dims m)
             | Rank3 t \<Rightarrow> (False, t));
          (batch_size, num_rows, num_boxes) = shape3 similarity_matrix
      in case (if num_boxes > 0
               then match_when_cols_are_non_empty match_dtype self similarity_matrix
                      batch_size num_rows
               else Inr (match_when_cols_are_empty batch_size num_rows)) of
           Inl e \<Rightarrow> Inl e
         | Inr (matched_columns, matched_values) \<Rightarrow>
             if squeeze_result then
               (case squeeze matched_columns of Inl e \<Rightarrow> Inl e | Inr mc \<Rightarrow>
               (case squeeze matched_values of Inl e \<Rightarrow> Inl e | Inr mv \<Rightarrow>
                  Inr (Vec mc, Vec mv)))
             else Inr (Mat matched_columns, Mat matched_values))"


section \<open>BoxMatcher: the computation at one row\<close>

text \<open>
  Auxiliary functions for the proofs: what the tensor program computes for row \<open>j\<close> of one
  matrix \<open>m\<close> of the batch. They are related to \<^const>\<open>call\<close> by the lemmas
  \<open>call_rank3\<close> and \<open>call_rank2\<close> below.
\<close>

definition assign_value :: "dtype \<Rightarrow> int list \<Rightarrow> pyfloat list \<Rightarrow> pyfloat \<Rightarrow> int" where
  "assign_value dt mvs ths x =
     fold (\<lambda>(ind, low, high) v. if dt low \<le> x \<and> x < dt high then ind else v)
          (zip mvs (zip (butlast ths) (tl ths))) 0"

definition padded_entry :: "pyfloat list list \<Rightarrow> nat \<Rightarrow> nat \<Rightarrow> nat \<Rightarrow> pyfloat" where
  "padded_entry m C j k = (if k < C then m ! j ! k else Fin (- 1))"

definition padded_row :: "pyfloat list list \<Rightarrow> nat \<Rightarrow> nat \<Rightarrow> pyfloat list" where
  "padded_row m C j = map (padded_entry m C j) [0..<Suc C]"

definition padded_col :: "pyfloat list list \<Rightarrow> nat \<Rightarrow> nat \<Rightarrow> nat \<Rightarrow> pyfloat list" where
  "padded_col m R C k = map (\<lambda>j. padded_entry m C j k) [0..<R]"

definition forced_by :: "pyfloat list list \<Rightarrow> nat \<Rightarrow> nat \<Rightarrow> nat \<Rightarrow> pyfloat list" where
  "forced_by m R C j =
     map (\<lambda>k. if argmax_list (padded_col m R C k) = j then Fin 1 else Fin 0) [0..<Suc C]"

definition entry_column :: "BoxMatcher \<Rightarrow> pyfloat list list \<Rightarrow> nat \<Rightarrow> nat \<Rightarrow> nat \<Rightarrow> int" where
  "entry_column self m R C j =
     int (if force_match_for_each_col self \<and> max_list (forced_by m R C j) \<noteq> Fin 0
          then argmax_list (forced_by m R C j)
          else argmax_list (padded_row m C j))"

definition entry_value ::
  "dtype \<Rightarrow> BoxMatcher \<Rightarrow> pyfloat list list \<Rightarrow> nat \<Rightarrow> nat \<Rightarrow> nat \<Rightarrow> int" where
  "entry_value dt self m R C j =
     (if force_match_for_each_col self \<and> max_list (forced_by m R C j) \<noteq> Fin 0
      then last (match_values self)
      else assign_value dt (match_values self) (thresholds self) (max_list (padded_row m C j)))"


section \<open>BoxMatcher: the words of the claims\<close>

text \<open>
  Well-formed tensors (the nested lists have the lengths the shape gives), and the
  properties C1 and C2 state of one row: the matched column attains the row's maximum,
  and the matched value is that of the one interval, between two neighbouring thresholds
  cast to the dtype \<open>dt\<close> of the matrix, holding the row's maximum.
\<close>

fun wf2 :: "'a tensor2 \<Rightarrow> bool" where
  "wf2 (Tensor2 n m xs) \<longleftrightarrow> length xs = n \<and> (\<forall>row\<in>set xs. length row = m)"

fun wf3 :: "'a tensor3 \<Rightarrow> bool" where
  "wf3 (Tensor3 b n m xs) \<longleftrightarrow>
     length xs = b \<and> (\<forall>mat\<in>set xs. length mat = n \<and> (\<forall>row\<in>set mat. length row = m))"

definition unit_interval :: "pyfloat \<Rightarrow> bool" where
  "unit_interval x \<longleftrightarrow> Fin 0 \<le> x \<and> x \<le> Fin 1"

definition attains_row_max :: "pyfloat list \<Rightarrow> int \<Rightarrow> bool" where
  "attains_row_max row c \<longleftrightarrow> 0 \<le> c \<and> nat c < length row \<and> (\<forall>x\<in>set row. x \<le> row ! nat c)"


section \<open>MultiSegmentPacker\<close>

text \<open>
  Modelled from the spec: the class \<^verbatim>\<open>MultiSegmentPacker\<close> of
  \<^verbatim>\<open>keras_hub/src/layers/preprocessing/multi_segment_packer.py\<close>, which is not among the
  sources; only its tests (\<^verbatim>\<open>multi_segment_packer_test.py\<close>) are. The definitions of this
  section follow the words of the claims about it (a packer with \<open>sequence_length\<close>,
  \<open>start_value\<close>, \<open>end_value\<close>, \<open>sep_value\<close>, \<open>pad_value\<close>, \<open>truncate\<close> and \<open>padding_side\<close>;
  truncation, then start, segments and separators, then padding) and are checked against
  every expected output of the tests (lemmas \<open>test_...\<close> below).
\<close>

datatype truncation = RoundRobin | Waterfall

datatype side = PadLeft | PadRight

datatype 'a special = One 'a | Many "'a list"

record 'a MultiSegmentPacker =
  sequence_length :: nat
  start_value :: "'a list"
  end_value :: "'a list"
  sep_value :: "'a list"
  pad_value :: 'a
  truncate_mode :: truncation
  padding_side :: side

text \<open>
  Modelled from the spec: the constructor. A special value is one token or a list of tokens
  (\<^verbatim>\<open>sep_value=["</s>", "</s>"]\<close> in \<^verbatim>\<open>test_list_special_tokens\<close>); a missing
  \<open>sep_value\<close> is the \<open>end_value\<close>. The field \<open>truncate\<close> is named \<open>truncate_mode\<close> here.
\<close>

fun special_tokens :: "'a special \<Rightarrow> 'a list" where
  "special_tokens (One x) = [x]"
| "special_tokens (Many xs) = xs"

definition MultiSegmentPacker_init ::
  "nat \<Rightarrow> 'a special \<Rightarrow> 'a special \<Rightarrow> 'a special option \<Rightarrow> 'a \<Rightarrow> truncation \<Rightarrow> side
     \<Rightarrow> 'a MultiSegmentPacker" where
  "MultiSegmentPacker_init n start_v end_v sep_v pad_v trunc pside =
     \<lparr>sequence_length = n,
      start_value = special_tokens start_v,
      end_value = special_tokens end_v,
      sep_value = (case sep_v of None \<Rightarrow> special_tokens end_v | Some s \<Rightarrow> special_tokens s),
      pad_value = pad_v,
      truncate_mode = trunc,
      padding_side = pside\<rparr>"

text \<open>
  Modelled from the spec: the tokens the packer adds around \<open>num_segments\<close> segments: the
  start, a separator after each segment but the last, and the end.
\<close>

definition num_special_tokens :: "'a MultiSegmentPacker \<Rightarrow> nat \<Rightarrow> nat" where
  "num_special_tokens p num_segments =
     length (start_value p) + (num_segments - 1) * length (sep_value p) + length (end_value p)"

text \<open>
  Modelled from the spec: \<open>truncate="waterfall"\<close> spends the budget on the segments in order.
\<close>

fun waterfall_trim :: "nat \<Rightarrow> 'a list list \<Rightarrow> 'a list list" where
  "waterfall_trim budget [] = []"
| "waterfall_trim budget (s # ss) = take budget s # waterfall_trim (budget - length s) ss"

text \<open>
  Modelled from the spec: \<open>truncate="round_robin"\<close> gives the segments one token at a time,
  in order, passing over a segment that has no token left, until the budget is spent or
  every segment is whole. \<open>one_round\<close> is one pass over the segments, each a pair of the
  number of tokens kept and the length; a pass that changes anything spends at least one
  unit of budget, so \<open>budget\<close> passes are enough.
\<close>

fun one_round :: "nat \<Rightarrow> (nat \<times> nat) list \<Rightarrow> nat \<times> (nat \<times> nat) list" where
  "one_round budget [] = (budget, [])"
| "one_round budget ((kept, len) # rest) =
     (if 0 < budget \<and> kept < len
      then (let (budget', rest') = one_round (budget - 1) rest in (budget', (Suc kept, len) # rest'))
      else (let (budget', rest') = one_round budget rest in (budget', (kept, len) # rest')))"

definition round_robin_counts :: "nat \<Rightarrow> nat list \<Rightarrow> nat list" where
  "round_robin_counts budget lens =
     map fst (snd (((\<lambda>(b, st). one_round b st) ^^ budget) (budget, map (\<lambda>l. (0, l)) lens)))"

definition round_robin_trim :: "nat \<Rightarrow> 'a list list \<Rightarrow> 'a list list" where
  "round_robin_trim budget segs =
     map (\<lambda>(k, s). take k s) (zip (round_robin_counts budget (map length segs)) segs)"

text \<open>
  Modelled from the spec: the budget for the segments is what \<open>sequence_length\<close> leaves
  after the special tokens (nothing when they alone exceed it).
\<close>

definition trim_inputs :: "'a MultiSegmentPacker \<Rightarrow> 'a list list \<Rightarrow> 'a list list" where
  "trim_inputs p segs =
     (let budget = sequence_length p - num_special_tokens p (length segs)
      in case truncate_mode p of
           RoundRobin \<Rightarrow> round_robin_trim budget segs
         | Waterfall \<Rightarrow> waterfall_trim budget segs)"

text \<open>
  Modelled from the spec: the packed sequence and its segment ids. Segment \<open>i\<close> and the
  separator (or end) that follows it have id \<open>i\<close>; the start has id 0.
\<close>

fun combine_segments :: "'a MultiSegmentPacker \<Rightarrow> nat \<Rightarrow> 'a list list \<Rightarrow> 'a list \<times> nat list" where
  "combine_segments p i [] = ([], [])"
| "combine_segments p i [s] =
     (s @ end_value p, replicate (length s + length (end_value p)) i)"
| "combine_segments p i (s # ss) =
     (let (tokens, ids) = combine_segments p (Suc i) ss
      in (s @ sep_value p @ tokens, replicate (length s + length (sep_value p)) i @ ids))"

definition combine_inputs :: "'a MultiSegmentPacker \<Rightarrow> 'a list list \<Rightarrow> 'a list \<times> nat list" where
  "combine_inputs p segs =
     (let (tokens, ids) = combine_segments p 0 segs
      in (start_value p @ tokens, replicate (length (start_value p)) 0 @ ids))"

text \<open>
  Modelled from the spec: padding to exactly \<open>n\<close> elements, on the right or on the left; a
  sequence longer than \<open>n\<close> is cut on the side the padding would go.
\<close>

definition pad :: "side \<Rightarrow> nat \<Rightarrow> 'b \<Rightarrow> 'b list \<Rightarrow> 'b list" where
  "pad pside n v xs =
     (case pside of
        PadRight \<Rightarrow> take n (xs @ replicate (n - length xs) v)
      | PadLeft \<Rightarrow> rev (take n (rev xs @ replicate (n - length xs) v)))"

text \<open>Modelled from the spec: the packer on the segments of one example.\<close>

definition pack :: "'a MultiSegmentPacker \<Rightarrow> 'a list list \<Rightarrow> 'a list \<times> nat list" where
  "pack p segs =
     (let (tokens, ids) = combine_inputs p (trim_inputs p segs)
      in (pad (padding_side p) (sequence_length p) (pad_value p) tokens,
          pad (padding_side p) (sequence_length p) 0 ids))"

text \<open>
  Modelled from the spec: the call. The input is one sequence, a tuple of segments, a batch
  of sequences, or a tuple of batched segments (one list of rows per segment, as in
  \<^verbatim>\<open>packer((seq1, seq2))\<close> of the batched tests).
\<close>

datatype 'a packer_input =
    Sequence "'a list"
  | Segments "'a list list"
  | BatchedSequence "'a list list"
  | BatchedSegments "'a list list list"

datatype 'a packed = Packed "'a list" "nat list" | PackedBatch "'a list list" "nat list list"

definition packer_call :: "'a MultiSegmentPacker \<Rightarrow> 'a packer_input \<Rightarrow> 'a packed" where
  "packer_call p inp =
     (case inp of
        Sequence s \<Rightarrow> (let (t, i) = pack p [s] in Packed t i)
      | Segments segs \<Rightarrow> (let (t, i) = pack p segs in Packed t i)
      | BatchedSequence rows \<Rightarrow>
          (let r = map (\<lambda>s. pack p [s]) rows in PackedBatch (map fst r) (map snd r))
      | BatchedSegments segs \<Rightarrow>
          (let r = map (pack p) (transpose segs) in PackedBatch (map fst r) (map snd r)))"


text \<open>The examples of a result and of an input, for stating C4.\<close>

fun examples :: "'a packed \<Rightarrow> ('a list \<times> nat list) list" where
  "examples (Packed t i) = [(t, i)]"
| "examples (PackedBatch ts is) = zip ts is"

fun input_examples :: "'a packer_input \<Rightarrow> 'a list list list" where
  "input_examples (Sequence s) = [[s]]"
| "input_examples (Segments segs) = [segs]"
| "input_examples (BatchedSequence rows) = map (\<lambda>s. [s]) rows"
| "input_examples (BatchedSegments segs) = transpose segs"

text \<open>The invariant of the round-robin passes, for the proofs.\<close>

definition rr_inv :: "nat \<Rightarrow> nat list \<Rightarrow> nat \<Rightarrow> nat \<times> (nat \<times> nat) list \<Rightarrow> bool" where
  "rr_inv B lens n s \<longleftrightarrow>
     (case s of (b, st) \<Rightarrow>
        map snd st = lens \<and> (\<forall>(k, l)\<in>set st. k \<le> l)
        \<and> sum_list (map fst st) + b = B
        \<and> (b = 0 \<or> b + n \<le> B \<or> (\<forall>(k, l)\<in>set st. k = l)))"

section \<open>PaliGemmaBackbone\<close>

text \<open>
  The arguments of \<^verbatim>\<open>PaliGemmaBackbone.__init__\<close> (pali\_gemma\_backbone.py, lines 122 to
  151). The layer classes are not among the sources: a layer is the constructor call that
  builds it (the configuration it is given, and for a decoder block its sliding-window flag
  and the index \<open>i\<close> of its name \<open>decoder_block_i\<close>), and the functional model is the
  graph of symbolic tensors that calling the layers on \<^verbatim>\<open>keras.Input\<close> builds.
\<close>

record backbone_config =
  vocabulary_size :: int
  image_size :: int
  num_layers :: int
  num_query_heads :: int
  num_key_value_heads :: int
  hidden_dim :: int
  intermediate_dim :: int
  head_dim :: int
  vit_patch_size :: int
  vit_num_heads :: int
  vit_hidden_dim :: int
  vit_num_layers :: int
  vit_intermediate_dim :: "int option"
  vit_pooling :: "string option"
  vit_classifier_activation :: "string option"
  vit_name :: "string option"
  query_head_dim_normalize :: bool
  use_post_ffw_norm :: bool
  use_post_attention_norm :: bool
  attention_logit_soft_cap :: "int option"
  final_logit_soft_cap :: "int option"
  use_sliding_window_attention :: bool
  sliding_window_size :: int
  layer_norm_epsilon :: real
  dropout :: real
  dtype :: "string option"

datatype layer =
    ReversibleEmbedding backbone_config
  | PaliGemmaVit backbone_config int
  | PaliGemmaDecoderBlock backbone_config bool int
  | RMSNormalization backbone_config

datatype scalar = Sqrt int | Cast scalar

datatype node =
    Input string "int option list" "string option"
  | Apply layer "node list"
  | Multiply node scalar
  | Concatenate "node list" int

record PaliGemmaBackbone =
  token_embedding :: layer
  vit_encoder :: layer
  transformer_layers :: "layer list"
  layer_norm :: layer
  inputs :: "(string \<times> node) list"
  outputs :: node
  config :: backbone_config

text \<open>Python's \<^verbatim>\<open>range(n)\<close>, empty for \<open>n \<le> 0\<close>.\<close>

definition py_range :: "int \<Rightarrow> int list" where
  "py_range n = map int [0..<nat n]"

text \<open>
  \<^verbatim>\<open>PaliGemmaBackbone.__init__\<close> (lines 152 to 275): the layers, then the functional model.
  Both \<^verbatim>\<open>for\<close> loops are \<^const>\<open>fold\<close>s, the first over \<open>range(num_layers)\<close>, the
  second over the layers it built.
\<close>

definition PaliGemmaBackbone_init :: "backbone_config \<Rightarrow> PaliGemmaBackbone" where
  "PaliGemmaBackbone_init cfg =
     (let token_embedding = ReversibleEmbedding cfg;
          vit_intermediate_dim =
            (case vit_intermediate_dim cfg of
               None \<Rightarrow> 4304
             | Some d \<Rightarrow> if d = 0 then 4304 else d);
          vit_encoder = PaliGemmaVit cfg vit_intermediate_dim;
          transformer_layers =
            fold (\<lambda>i transformer_layers.
                    let sliding_window = (use_sliding_window_attention cfg \<and> i mod 2 = 0);
                        layer = PaliGemmaDecoderBlock cfg sliding_window i
                    in transformer_layers @ [layer])
                 (py_range (num_layers cfg)) [];
          layer_norm = RMSNormalization cfg;
          image_input = Input ''images'' [Some (image_size cfg), Some (image_size cfg), Some 3] None;
          token_id_input = Input ''token_ids'' [None] (Some ''int32'');
          padding_mask_input = Input ''padding_mask'' [None] (Some ''int32'');
          response_mask_input = Input ''response_mask'' [None] (Some ''int32'');
          img_embeddings = Apply vit_encoder [image_input];
          text_embeddings = Apply token_embedding [token_id_input];
          text_embeddings = Multiply text_embeddings (Cast (Sqrt (hidden_dim cfg)));
          x = Concatenate [img_embeddings, text_embeddings] 1;
          x = fold (\<lambda>transformer_layer x.
                      Apply transformer_layer [x, padding_mask_input, response_mask_input])
                   transformer_layers x;
          sequence_output = Apply layer_norm [x]
      in \<lparr>token_embedding = token_embedding,
          vit_encoder = vit_encoder,
          transformer_layers = transformer_layers,
          layer_norm = layer_norm,
          inputs = [(''images'', image_input), (''token_ids'', token_id_input),
                    (''padding_mask'', padding_mask_input),
                    (''response_mask'', response_mask_input)],
          outputs = sequence_output,
          config = cfg\<lparr>vit_intermediate_dim := Some vit_intermediate_dim\<rparr>\<rparr>)"

text \<open>
  Running the graph: \<open>L\<close> gives each layer its function, \<open>M\<close> and \<open>C\<close> are multiplication by
  a scalar and concatenation along an axis, \<open>env\<close> gives the inputs their values.
\<close>

fun run :: "(layer \<Rightarrow> 'v list \<Rightarrow> 'v) \<Rightarrow> ('v \<Rightarrow> scalar \<Rightarrow> 'v) \<Rightarrow> ('v list \<Rightarrow> int \<Rightarrow> 'v)
    \<Rightarrow> (string \<Rightarrow> 'v) \<Rightarrow> node \<Rightarrow> 'v" where
  "run L M C env (Input name shape dt) = env name"
| "run L M C env (Apply l args) = L l (map (run L M C env) args)"
| "run L M C env (Multiply n s) = M (run L M C env n) s"
| "run L M C env (Concatenate ns axis) = C (map (run L M C env) ns) axis"

text \<open>
  The configuration of the class docstring's example (lines 103 to 117), and a layer
  function that records the indices of the decoder blocks a value went through.
\<close>

definition docstring_config :: backbone_config where
  "docstring_config =
     \<lparr>vocabulary_size = 50257, image_size = 224, num_layers = 12, num_query_heads = 12,
      num_key_value_heads = 1, hidden_dim = 768, intermediate_dim = 3072, head_dim = 64,
      vit_patch_size = 14, vit_num_heads = 8, vit_hidden_dim = 768, vit_num_layers = 2,
      vit_intermediate_dim = Some 3072, vit_pooling = None, vit_classifier_activation = None,
      vit_name = None, query_head_dim_normalize = True, use_post_ffw_norm = False,
      use_post_attention_norm = False, attention_logit_soft_cap = None,
      final_logit_soft_cap = None, use_sliding_window_attention = False,
      sliding_window_size = 4096, layer_norm_epsilon = 1 / 1000000, dropout = 0,
      dtype = None\<rparr>"

definition trace_layer :: "layer \<Rightarrow> int list list \<Rightarrow> int list" where
  "trace_layer l args =
     (case l of
        PaliGemmaDecoderBlock c w i \<Rightarrow> hd args @ [i]
      | _ \<Rightarrow> concat args)"

text \<open>The decoder block the first loop builds at index \<open>i\<close>.\<close>

definition decoder_block :: "backbone_config \<Rightarrow> int \<Rightarrow> layer" where
  "decoder_block cfg i =
     PaliGemmaDecoderBlock cfg (use_sliding_window_attention cfg \<and> i mod 2 = 0) i"

section \<open>Facts about the number model\<close>

lemma pyfloat_less_simps [simp]:
  "Fin x < Fin y \<longleftrightarrow> x < y"
  "NegInf < Fin x" "Fin x < PosInf" "NegInf < PosInf"
  "\<not> Fin x < NegInf" "\<not> PosInf < a" "\<not> a < NegInf"
  by (cases a; auto simp: less_pyfloat_def)+

lemma pyfloat_le_simps [simp]:
  "a \<le> PosInf" "PosInf \<le> b \<longleftrightarrow> b = PosInf" "b \<le> NegInf \<longleftrightarrow> b = NegInf"
  by (cases a; cases b; simp)+




lemma sort_differs_iff: "sort xs \<noteq> xs \<longleftrightarrow> \<not> sorted xs"
  for xs :: "'a::linorder list"
  by (metis sorted_sort sorted_sort_id)

section \<open>Tabulated tensors\<close>

lemma tabulate2_cong [cong]:
  "n = n' \<Longrightarrow> m = m' \<Longrightarrow> (\<And>i j. i < n' \<Longrightarrow> j < m' \<Longrightarrow> f i j = g i j)
   \<Longrightarrow> tabulate2 n m f = tabulate2 n' m' g"
  by (simp add: tabulate2_def)

lemma tabulate3_cong [cong]:
  "b = b' \<Longrightarrow> n = n' \<Longrightarrow> m = m'
   \<Longrightarrow> (\<And>i j k. i < b' \<Longrightarrow> j < n' \<Longrightarrow> k < m' \<Longrightarrow> f i j k = g i j k)
   \<Longrightarrow> tabulate3 b n m f = tabulate3 b' n' m' g"
  by (simp add: tabulate3_def)

lemma at2_tabulate2 [simp]: "i < n \<Longrightarrow> j < m \<Longrightarrow> at2 (tabulate2 n m f) i j = f i j"
  by (simp add: tabulate2_def)

lemma at3_tabulate3 [simp]:
  "i < b \<Longrightarrow> j < n \<Longrightarrow> k < m \<Longrightarrow> at3 (tabulate3 b n m f) i j k = f i j k"
  by (simp add: tabulate3_def)

lemma shape_tabulate [simp]:
  "shape2 (tabulate2 n m f) = (n, m)" "shape3 (tabulate3 b n m g) = (b, n, m)"
  by (simp_all add: tabulate2_def tabulate3_def)

text \<open>Each operation, applied to a tabulated tensor, is again a tabulated tensor.\<close>

lemma negative_tabulate [simp]: "negative (tabulate2 n m f) = tabulate2 n m (\<lambda>i j. - f i j)"
  unfolding tabulate2_def[of n m f] by simp

lemma negative3_tabulate [simp]:
  "negative3 (tabulate3 b n m f) = tabulate3 b n m (\<lambda>i j k. negative_float (f i j k))"
  unfolding tabulate3_def[of b n m f] by simp

lemma multiply_tabulate [simp]: "multiply c (tabulate2 n m f) = tabulate2 n m (\<lambda>i j. c * f i j)"
  unfolding tabulate2_def[of n m f] by simp

lemma concatenate_tabulate [simp]:
  "concatenate (Tensor3 b n m xs) (tabulate3 b' n' m' g) =
     tabulate3 b n (m + m') (\<lambda>i j k. if k < m then xs ! i ! j ! k else at3 (tabulate3 b' n' m' g) i j (k - m))"
  by (simp add: tabulate3_def[of b' n' m' g] cong: if_cong)

lemma argmax_last_tabulate [simp]:
  "argmax_last (tabulate3 b n m f) =
     (if m = 0 then Inl (ValueError ''attempt to get argmax of an empty sequence'')
      else Inr (tabulate2 b n (\<lambda>i j. argmax_list (map (f i j) [0..<m]))))"
  by (simp add: tabulate3_def[of b n m f], intro impI tabulate2_cong refl arg_cong[of _ _ argmax_list] arg_cong[of _ _ max_list] map_cong) simp_all

lemma max_last_tabulate [simp]:
  "max_last (tabulate3 b n m f) =
     (if m = 0 then Inl (ValueError ''zero-size array to reduction operation maximum'')
      else Inr (tabulate2 b n (\<lambda>i j. max_list (map (f i j) [0..<m]))))"
  by (simp add: tabulate3_def[of b n m f], intro impI tabulate2_cong refl arg_cong[of _ _ argmax_list] arg_cong[of _ _ max_list] map_cong) simp_all

lemma argmax_axis1_tabulate [simp]:
  "argmax_axis1 (tabulate3 b n m f) =
     (if n = 0 then Inl (ValueError ''attempt to get argmax of an empty sequence'')
      else Inr (tabulate2 b m (\<lambda>i k. argmax_list (map (\<lambda>j. f i j k) [0..<n]))))"
  by (simp add: tabulate3_def[of b n m f], intro impI tabulate2_cong refl arg_cong[of _ _ argmax_list] arg_cong[of _ _ max_list] map_cong) simp_all

lemma max_axis1_tabulate [simp]:
  "max_axis1 (tabulate3 b n m f) =
     (if n = 0 then Inl (ValueError ''zero-size array to reduction operation maximum'')
      else Inr (tabulate2 b m (\<lambda>i k. max_list (map (\<lambda>j. f i j k) [0..<n]))))"
  by (simp add: tabulate3_def[of b n m f], intro impI tabulate2_cong refl arg_cong[of _ _ argmax_list] arg_cong[of _ _ max_list] map_cong) simp_all

lemma one_hot_tabulate [simp]:
  "one_hot (tabulate2 b n f) c = tabulate3 b n c (\<lambda>i j k. if f i j = k then Fin 1 else Fin 0)"
  by (simp add: tabulate2_def[of b n f])

lemma greater_equal_tabulate [simp]:
  "greater_equal (tabulate2 n m f) c = tabulate2 n m (\<lambda>i j. f i j \<ge> c)"
  by (simp add: tabulate2_def[of n m f])

lemma less_t_tabulate [simp]:
  "less_t (tabulate2 n m f) c = tabulate2 n m (\<lambda>i j. f i j < c)"
  by (simp add: tabulate2_def[of n m f])

lemma logical_and_tabulate [simp]:
  "logical_and (tabulate2 n m f) (tabulate2 n m g) = tabulate2 n m (\<lambda>i j. f i j \<and> g i j)"
  by (simp add: tabulate2_def[of n m f] tabulate2_def[of n m g])

lemma where_t_tabulate [simp]:
  "where_t (tabulate2 n m c) (tabulate2 n m f) (tabulate2 n m g) =
     tabulate2 n m (\<lambda>i j. if c i j then f i j else g i j)"
  by (simp add: tabulate2_def[of n m f] tabulate2_def[of n m g] tabulate2_def[of n m c] cong: if_cong)

lemma cast_bool_tabulate [simp]:
  "cast_bool (tabulate2 n m f) = tabulate2 n m (\<lambda>i j. f i j \<noteq> Fin 0)"
  by (simp add: tabulate2_def[of n m f])

lemma cast_int32_tabulate [simp]:
  "cast_int32 (tabulate2 n m f) = tabulate2 n m (\<lambda>i j. int (f i j))"
  by (simp add: tabulate2_def[of n m f])

lemma set_values_tabulate [simp]:
  "set_values_using_indicator (tabulate2 n m f) (tabulate2 n m c) v =
     tabulate2 n m (\<lambda>i j. if c i j then v else f i j)"
  by (simp add: tabulate2_def[of n m f] tabulate2_def[of n m c] cong: if_cong, intro tabulate2_cong refl) simp

lemma squeeze_tabulate [simp]:
  "squeeze (tabulate2 n m f) =
     (if n = 1 then Inr (Tensor1 m (map (f 0) [0..<m]))
      else Inl (ValueError ''cannot squeeze an axis whose size is not 1''))"
  by (simp add: tabulate2_def[of n m f])

lemma fold_set_values_tabulate:
  "fold (\<lambda>(ind, low, high) matched_values.
           set_values_using_indicator matched_values
             (logical_and (greater_equal (tabulate2 n m V) (cast low dt))
                          (less_t (tabulate2 n m V) (cast high dt))) ind)
        ts (tabulate2 n m f)
   = tabulate2 n m (\<lambda>i j. fold (\<lambda>(ind, low, high) v. if dt low \<le> V i j \<and> V i j < dt high then ind else v)
                              ts (f i j))"
  (is "fold ?F ts _ = _")
proof (induction ts arbitrary: f)
  case Nil
  show ?case by simp
next
  case (Cons t ts)
  obtain ind low high where t: "t = (ind, low, high)"
    by (cases t) auto
  have step: "?F t (tabulate2 n m f) =
      tabulate2 n m (\<lambda>i j. if dt low \<le> V i j \<and> V i j < dt high then ind else f i j)"
    by (simp add: t cast_def)
  have "fold ?F (t # ts) (tabulate2 n m f) = fold ?F ts (?F t (tabulate2 n m f))"
    by simp
  also have "\<dots> = tabulate2 n m (\<lambda>i j. fold (\<lambda>(ind, low, high) v. if dt low \<le> V i j \<and> V i j < dt high then ind else v)
                              ts (if dt low \<le> V i j \<and> V i j < dt high then ind else f i j))"
    unfolding step by (rule Cons.IH)
  finally show ?case
    by (simp add: t)
qed

lemma padded_tensor:
  "concatenate (Tensor3 B R C xs) (negative3 (ones3 B R 1)) =
     tabulate3 B R (Suc C) (\<lambda>i j k. padded_entry (xs ! i) C j k)"
  by (simp add: ones3_def padded_entry_def cong: if_cong)

lemma matched_columns_tensor:
  "argmax_last (tabulate3 B R (Suc C) (\<lambda>i j k. padded_entry (xs ! i) C j k)) =
     Inr (tabulate2 B R (\<lambda>i j. argmax_list (padded_row (xs ! i) C j)))"
  by (simp add: padded_row_def del: upt_Suc)

lemma matched_vals_tensor:
  "max_last (tabulate3 B R (Suc C) (\<lambda>i j k. padded_entry (xs ! i) C j k)) =
     Inr (tabulate2 B R (\<lambda>i j. max_list (padded_row (xs ! i) C j)))"
  by (simp add: padded_row_def del: upt_Suc)

lemma matching_rows_tensor:
  "0 < R \<Longrightarrow>
   argmax_axis1 (tabulate3 B R (Suc C) (\<lambda>i j k. padded_entry (xs ! i) C j k)) =
     Inr (tabulate2 B (Suc C) (\<lambda>i k. argmax_list (padded_col (xs ! i) R C k)))"
  by (simp add: padded_col_def del: upt_Suc)

lemma force_matched_columns_tensor:
  "argmax_axis1 (one_hot (tabulate2 B (Suc C) (\<lambda>i k. argmax_list (padded_col (xs ! i) R C k))) R) =
     Inr (tabulate2 B R (\<lambda>i j. argmax_list (forced_by (xs ! i) R C j)))"
  by (simp add: forced_by_def del: upt_Suc)

lemma force_max_tensor:
  "max_axis1 (one_hot (tabulate2 B (Suc C) (\<lambda>i k. argmax_list (padded_col (xs ! i) R C k))) R) =
     Inr (tabulate2 B R (\<lambda>i j. max_list (forced_by (xs ! i) R C j)))"
  by (simp add: forced_by_def del: upt_Suc)

lemma threshold_loop_tensor:
  "fold (\<lambda>(ind, low, high) matched_values.
           set_values_using_indicator matched_values
             (logical_and (greater_equal (tabulate2 B R V) (cast low dt))
                          (less_t (tabulate2 B R V) (cast high dt))) ind)
        (zip mvs (zip (butlast ths) (tl ths))) (zeros B R)
   = tabulate2 B R (\<lambda>i j. assign_value dt mvs ths (V i j))"
  unfolding zeros_def fold_set_values_tabulate assign_value_def ..

lemma non_empty_result:
  "match_when_cols_are_non_empty dt self (Tensor3 B R C xs) B R =
     (if force_match_for_each_col self \<and> R = 0
        then Inl (ValueError ''attempt to get argmax of an empty sequence'')
      else if force_match_for_each_col self \<and> match_values self = []
        then Inl (IndexError ''list index out of range'')
      else Inr (tabulate2 B R (\<lambda>i j. entry_column self (xs ! i) R C j),
                tabulate2 B R (\<lambda>i j. entry_value dt self (xs ! i) R C j)))"
proof -
  have start: "match_when_cols_are_non_empty dt self (Tensor3 B R C xs) B R =
     (if force_match_for_each_col self then
        (case argmax_axis1 (tabulate3 B R (Suc C) (\<lambda>i j k. padded_entry (xs ! i) C j k)) of
           Inl e \<Rightarrow> Inl e
         | Inr matching_rows \<Rightarrow>
            (case argmax_axis1 (one_hot matching_rows R) of Inl e \<Rightarrow> Inl e
             | Inr force_matched_columns \<Rightarrow>
               (case max_axis1 (one_hot matching_rows R) of Inl e \<Rightarrow> Inl e
                | Inr force_max \<Rightarrow>
                  (case last_item (match_values self) of Inl e \<Rightarrow> Inl e
                   | Inr positive \<Rightarrow>
                      Inr (cast_int32 (where_t (cast_bool force_max) force_matched_columns
                             (tabulate2 B R (\<lambda>i j. argmax_list (padded_row (xs ! i) C j)))),
                           where_t (cast_bool force_max) (multiply positive (ones B R))
                             (tabulate2 B R (\<lambda>i j. assign_value dt (match_values self)
                                 (thresholds self) (max_list (padded_row (xs ! i) C j)))))))))
      else Inr (cast_int32 (tabulate2 B R (\<lambda>i j. argmax_list (padded_row (xs ! i) C j))),
                tabulate2 B R (\<lambda>i j. assign_value dt (match_values self) (thresholds self)
                                  (max_list (padded_row (xs ! i) C j)))))"
    unfolding match_when_cols_are_non_empty_def Let_def padded_tensor
    by (simp only: matched_columns_tensor matched_vals_tensor sum.case threshold_loop_tensor)
  show ?thesis
  proof (cases "force_match_for_each_col self")
    case False
    then show ?thesis
      unfolding start by (simp add: entry_column_def entry_value_def)
  next
    case force: True
    show ?thesis
    proof (cases "R = 0")
      case True
      with force show ?thesis
        unfolding start by simp
    next
      case False
      then have R: "0 < R" by simp
      show ?thesis
        unfolding start matching_rows_tensor [OF R]
        using force False
        by (simp only: sum.case force_matched_columns_tensor force_max_tensor)
           (simp add: entry_column_def entry_value_def last_item_def ones_def cong: if_cong)
    qed
  qed
qed

lemma call_rank3:
  "call dt self (Rank3 (Tensor3 B R C xs)) =
     (if C = 0 then Inr (Mat (tabulate2 B R (\<lambda>i j. 0)), Mat (tabulate2 B R (\<lambda>i j. - 1)))
      else if force_match_for_each_col self \<and> R = 0
        then Inl (ValueError ''attempt to get argmax of an empty sequence'')
      else if force_match_for_each_col self \<and> match_values self = []
        then Inl (IndexError ''list index out of range'')
      else Inr (Mat (tabulate2 B R (\<lambda>i j. entry_column self (xs ! i) R C j)),
                Mat (tabulate2 B R (\<lambda>i j. entry_value dt self (xs ! i) R C j))))"
  by (simp add: call_def non_empty_result match_when_cols_are_empty_def zeros_def ones_def)

lemma call_rank2:
  "call dt self (Rank2 (Tensor2 R C ys)) =
     (if C = 0 then Inr (Vec (Tensor1 R (map (\<lambda>j. 0) [0..<R])),
                         Vec (Tensor1 R (map (\<lambda>j. - 1) [0..<R])))
      else if force_match_for_each_col self \<and> R = 0
        then Inl (ValueError ''attempt to get argmax of an empty sequence'')
      else if force_match_for_each_col self \<and> match_values self = []
        then Inl (IndexError ''list index out of range'')
      else Inr (Vec (Tensor1 R (map (\<lambda>j. entry_column self ys R C j) [0..<R])),
                Vec (Tensor1 R (map (\<lambda>j. entry_value dt self ys R C j) [0..<R]))))"
  by (simp add: call_def non_empty_result match_when_cols_are_empty_def zeros_def ones_def)

section \<open>Lists: argmax, maximum and the threshold intervals\<close>

lemma argmax_list_props:
  "xs \<noteq> [] \<Longrightarrow> argmax_list xs < length xs
     \<and> (\<forall>y\<in>set xs. y \<le> xs ! argmax_list xs)
     \<and> (\<forall>j<argmax_list xs. xs ! j < xs ! argmax_list xs)"
proof (induction xs rule: argmax_list.induct)
  case 1
  then show ?case by simp
next
  case (2 x)
  then show ?case by simp
next
  case (3 x y ys)
  let ?i = "argmax_list (y # ys)"
  from 3 have IH: "?i < length (y # ys)" "\<forall>z\<in>set (y # ys). z \<le> (y # ys) ! ?i"
    "\<forall>j<?i. (y # ys) ! j < (y # ys) ! ?i"
    by simp_all
  show ?case
  proof (cases "x < (y # ys) ! ?i")
    case True
    then have eq: "argmax_list (x # y # ys) = Suc ?i" by (simp add: Let_def)
    have "\<forall>j<Suc ?i. (x # y # ys) ! j < (x # y # ys) ! Suc ?i"
    proof (intro allI impI)
      fix j assume "j < Suc ?i"
      then show "(x # y # ys) ! j < (x # y # ys) ! Suc ?i"
        using True IH(3) by (cases j) auto
    qed
    with True IH(1,2) show ?thesis
      unfolding eq by (auto simp: less_imp_le)
  next
    case False
    then have eq: "argmax_list (x # y # ys) = 0" by (simp add: Let_def)
    from False IH(2) show ?thesis
      unfolding eq by (auto simp: not_less intro: order_trans)
  qed
qed


lemma padded_row_append: "length (m ! j) = C \<Longrightarrow> padded_row m C j = m ! j @ [Fin (- 1)]"
  by (auto simp: padded_row_def padded_entry_def list_eq_iff_nth_eq nth_append)

lemma argmax_padded:
  assumes "row \<noteq> []" and "\<forall>x\<in>set row. Fin 0 \<le> x"
  shows "argmax_list (row @ [Fin (- 1)]) < length row
     \<and> (\<forall>x\<in>set row. x \<le> row ! argmax_list (row @ [Fin (- 1)]))"
proof -
  let ?p = "row @ [Fin (- 1)]"
  let ?a = "argmax_list ?p"
  have props: "?a < length ?p" "\<forall>y\<in>set ?p. y \<le> ?p ! ?a"
    using argmax_list_props [of ?p] by simp_all
  have "row ! 0 \<in> set row" using assms(1) by simp
  then have "Fin 0 \<le> ?p ! ?a"
    using assms(2) props(2) by (metis Un_iff order_trans set_append)
  then have "?a \<noteq> length row"
    by (auto simp: nth_append)
  with props(1) have lt: "?a < length row" by simp
  then have "?p ! ?a = row ! ?a" by (simp add: nth_append)
  with props(2) lt show ?thesis by auto
qed





section \<open>BoxMatcher: the constructor's checks\<close>

text \<open>
  C9. The constructor raises ValueError exactly when the thresholds are not in ascending
  order or the number of match values is not the number of thresholds plus one; with both
  conditions met it returns a matcher, whose stored thresholds are the given ones between
  minus and plus infinity.
\<close>

theorem BoxMatcher_init_raises_iff:
  "((\<exists>msg. BoxMatcher_init ths mvs force = Inl (ValueError msg))
      \<longleftrightarrow> (\<not> sorted ths \<or> length mvs \<noteq> length ths + 1))
   \<and> (sorted ths \<and> length mvs = length ths + 1 \<longrightarrow>
        BoxMatcher_init ths mvs force =
          Inr \<lparr>match_values = mvs, thresholds = NegInf # ths @ [PosInf],
               force_match_for_each_col = force\<rparr>)"
  by (auto simp: BoxMatcher_init_def sort_differs_iff)

theorem BoxMatcher_init_raises_iff_witness:
  "BoxMatcher_init [Fin 0.4, Fin 0.5] [-1, -2, 1] False =
     Inr \<lparr>match_values = [-1, -2, 1], thresholds = [NegInf, Fin 0.4, Fin 0.5, PosInf],
          force_match_for_each_col = False\<rparr>
   \<and> (\<exists>msg. BoxMatcher_init [Fin 0.5, Fin 0.4] [-1, -2, 1] False = Inl (ValueError msg))
   \<and> (\<exists>msg. BoxMatcher_init [Fin 0.4, Fin 0.5] [-1, 1] False = Inl (ValueError msg))"
  using BoxMatcher_init_raises_iff [of "[Fin 0.4, Fin 0.5]" "[-1, -2, 1]" False]
    BoxMatcher_init_raises_iff [of "[Fin 0.5, Fin 0.4]" "[-1, -2, 1]" False]
    BoxMatcher_init_raises_iff [of "[Fin 0.4, Fin 0.5]" "[-1, 1]" False]
  by simp

section \<open>BoxMatcher: the matching\<close>

lemma tabulate2_const: "tabulate2 n m (\<lambda>i j. c) = Tensor2 n m (replicate n (replicate m c))"
  by (simp add: tabulate2_def map_replicate_const)

text \<open>
  C10. With zero columns the matcher returns zeros as matched columns and minus ones as
  matched values, of shape \<open>[batch_size, num_rows]\<close> (\<open>[num_rows]\<close> for a matrix), whatever
  the match values, the thresholds and the force flag are.
\<close>

theorem no_columns:
  "call dt self (Rank3 (Tensor3 B R 0 xs)) =
     Inr (Mat (Tensor2 B R (replicate B (replicate R 0))),
          Mat (Tensor2 B R (replicate B (replicate R (- 1)))))
   \<and> call dt self (Rank2 (Tensor2 R 0 ys)) =
     Inr (Vec (Tensor1 R (replicate R 0)), Vec (Tensor1 R (replicate R (- 1))))"
  by (simp add: call_rank3 call_rank2 tabulate2_const map_replicate_const)

lemma tabulate2_nth:
  "tabulate2 n m f = Tensor2 n m xs \<Longrightarrow> i < n \<Longrightarrow> xs ! i = map (f i) [0..<m]"
  by (auto simp: tabulate2_def)

text \<open>
  C8. The result at batch index \<open>b\<close> of a call on a batch is the result of the call on the
  matrix at index \<open>b\<close>, errors included; and a call on a matrix is the call on the matrix
  expanded to a batch of one, with the leading axis squeezed out of both results.
\<close>

theorem batch_independent:
  "(b < B \<longrightarrow>
     (case call dt self (Rank3 (Tensor3 B R C xs)) of
        Inl e \<Rightarrow> call dt self (Rank2 (Tensor2 R C (xs ! b))) = Inl e
      | Inr (mc, mv) \<Rightarrow>
          (\<exists>cols vals. mc = Mat (Tensor2 B R cols) \<and> mv = Mat (Tensor2 B R vals)
             \<and> call dt self (Rank2 (Tensor2 R C (xs ! b))) =
                 Inr (Vec (Tensor1 R (cols ! b)), Vec (Tensor1 R (vals ! b))))))
   \<and> (case call dt self (Rank3 (expand_dims t)) of
        Inl e \<Rightarrow> call dt self (Rank2 t) = Inl e
      | Inr (mc, mv) \<Rightarrow>
          (\<exists>c v c' v'. mc = Mat c \<and> mv = Mat v \<and> squeeze c = Inr c' \<and> squeeze v = Inr v'
             \<and> call dt self (Rank2 t) = Inr (Vec c', Vec v')))"
proof (intro conjI impI)
  assume b: "b < B"
  show "case call dt self (Rank3 (Tensor3 B R C xs)) of
        Inl e \<Rightarrow> call dt self (Rank2 (Tensor2 R C (xs ! b))) = Inl e
      | Inr (mc, mv) \<Rightarrow>
          (\<exists>cols vals. mc = Mat (Tensor2 B R cols) \<and> mv = Mat (Tensor2 B R vals)
             \<and> call dt self (Rank2 (Tensor2 R C (xs ! b))) =
                 Inr (Vec (Tensor1 R (cols ! b)), Vec (Tensor1 R (vals ! b))))"
    using b by (simp add: call_rank3 call_rank2 tabulate2_def)
next
  obtain R C ys where t: "t = Tensor2 R C ys" by (cases t)
  show "case call dt self (Rank3 (expand_dims t)) of
        Inl e \<Rightarrow> call dt self (Rank2 t) = Inl e
      | Inr (mc, mv) \<Rightarrow>
          (\<exists>c v c' v'. mc = Mat c \<and> mv = Mat v \<and> squeeze c = Inr c' \<and> squeeze v = Inr v'
             \<and> call dt self (Rank2 t) = Inr (Vec c', Vec v'))"
    unfolding t by (simp add: call_rank3 call_rank2)
qed




lemma entry_column_no_force:
  assumes "\<not> force_match_for_each_col self" and "length (m ! j) = C" and "1 \<le> C"
    and "\<forall>x\<in>set (m ! j). unit_interval x"
  shows "attains_row_max (m ! j) (entry_column self m R C j)"
proof -
  have ne: "m ! j \<noteq> []" using assms(2,3) by auto
  have nonneg: "\<forall>x\<in>set (m ! j). Fin 0 \<le> x"
    using assms(4) by (simp add: unit_interval_def)
  show ?thesis
    using argmax_padded [OF ne nonneg] assms(1)
    by (simp add: attains_row_max_def entry_column_def padded_row_append [OF assms(2)])
qed


text \<open>
  C1, as amended: without \<open>force_match_for_each_col\<close>, for a similarity matrix (or a batch)
  with at least one column and entries in \<open>[0, 1]\<close>, the matched column of every row is an
  index below \<open>num_cols\<close> at which the row attains its maximum.
\<close>

theorem argmax_matching:
  assumes "\<not> force_match_for_each_col self" and "1 \<le> C"
  shows "(wf3 (Tensor3 B R C xs) \<and> (\<forall>m\<in>set xs. \<forall>row\<in>set m. \<forall>x\<in>set row. unit_interval x) \<longrightarrow>
            (\<exists>cols vals.
               call dt self (Rank3 (Tensor3 B R C xs)) =
                 Inr (Mat (Tensor2 B R cols), Mat (Tensor2 B R vals))
               \<and> wf2 (Tensor2 B R cols)
               \<and> (\<forall>b<B. \<forall>r<R. attains_row_max (xs ! b ! r) (cols ! b ! r))))
       \<and> (wf2 (Tensor2 R C ys) \<and> (\<forall>row\<in>set ys. \<forall>x\<in>set row. unit_interval x) \<longrightarrow>
            (\<exists>cols vals.
               call dt self (Rank2 (Tensor2 R C ys)) =
                 Inr (Vec (Tensor1 R cols), Vec (Tensor1 R vals))
               \<and> length cols = R
               \<and> (\<forall>r<R. attains_row_max (ys ! r) (cols ! r))))"
proof (intro conjI impI)
  assume a: "wf3 (Tensor3 B R C xs) \<and> (\<forall>m\<in>set xs. \<forall>row\<in>set m. \<forall>x\<in>set row. unit_interval x)"
  let ?cols = "map (\<lambda>i. map (entry_column self (xs ! i) R C) [0..<R]) [0..<B]"
  let ?vals = "map (\<lambda>i. map (entry_value dt self (xs ! i) R C) [0..<R]) [0..<B]"
  have "call dt self (Rank3 (Tensor3 B R C xs)) = Inr (Mat (Tensor2 B R ?cols), Mat (Tensor2 B R ?vals))"
    using assms by (simp add: call_rank3 tabulate2_def)
  moreover have "wf2 (Tensor2 B R ?cols)"
    by auto
  moreover have "attains_row_max (xs ! b ! r) (?cols ! b ! r)" if "b < B" "r < R" for b r
  proof -
    from a that have "xs ! b \<in> set xs" "length (xs ! b) = R" by auto
    with that have "xs ! b ! r \<in> set (xs ! b)" by simp
    with a \<open>xs ! b \<in> set xs\<close> have "length (xs ! b ! r) = C" "\<forall>x\<in>set (xs ! b ! r). unit_interval x"
      by auto
    then show ?thesis
      using entry_column_no_force [OF assms(1) _ assms(2), of "xs ! b" r R] that by simp
  qed
  ultimately show "\<exists>cols vals.
      call dt self (Rank3 (Tensor3 B R C xs)) = Inr (Mat (Tensor2 B R cols), Mat (Tensor2 B R vals))
      \<and> wf2 (Tensor2 B R cols)
      \<and> (\<forall>b<B. \<forall>r<R. attains_row_max (xs ! b ! r) (cols ! b ! r))"
    by blast
next
  assume a: "wf2 (Tensor2 R C ys) \<and> (\<forall>row\<in>set ys. \<forall>x\<in>set row. unit_interval x)"
  let ?cols = "map (entry_column self ys R C) [0..<R]"
  let ?vals = "map (entry_value dt self ys R C) [0..<R]"
  have "call dt self (Rank2 (Tensor2 R C ys)) = Inr (Vec (Tensor1 R ?cols), Vec (Tensor1 R ?vals))"
    using assms by (simp add: call_rank2)
  moreover have "length ?cols = R"
    by simp
  moreover have "attains_row_max (ys ! r) (?cols ! r)" if "r < R" for r
  proof -
    from a that have "ys ! r \<in> set ys" by auto
    with a have "length (ys ! r) = C" "\<forall>x\<in>set (ys ! r). unit_interval x"
      by auto
    then show ?thesis
      using entry_column_no_force [OF assms(1) _ assms(2), of ys r R] that by simp
  qed
  ultimately show "\<exists>cols vals.
      call dt self (Rank2 (Tensor2 R C ys)) = Inr (Vec (Tensor1 R cols), Vec (Tensor1 R vals))
      \<and> length cols = R
      \<and> (\<forall>r<R. attains_row_max (ys ! r) (cols ! r))"
    by blast
qed

theorem argmax_matching_witness:
  "(\<exists>cols vals.
      call float64 \<lparr>match_values = [- 1, - 2, 1], thresholds = [NegInf, Fin 0.4, Fin 0.5, PosInf],
            force_match_for_each_col = False\<rparr>
        (Rank3 (Tensor3 1 2 2 [[[Fin 0.5, Fin 0.9], [Fin 0.45, Fin 0.3]]])) =
        Inr (Mat (Tensor2 1 2 cols), Mat (Tensor2 1 2 vals))
      \<and> wf2 (Tensor2 1 2 cols)
      \<and> (\<forall>b<1. \<forall>r<2. attains_row_max ([[[Fin 0.5, Fin 0.9], [Fin 0.45, Fin 0.3]]] ! b ! r) (cols ! b ! r)))
   \<and> (\<exists>cols vals.
      call float64 \<lparr>match_values = [- 1, - 2, 1], thresholds = [NegInf, Fin 0.4, Fin 0.5, PosInf],
            force_match_for_each_col = False\<rparr>
        (Rank2 (Tensor2 3 2 [[Fin 0.5, Fin 0.9], [Fin 0.1, Fin 0.2], [Fin 0.45, Fin 0.3]])) =
        Inr (Vec (Tensor1 3 cols), Vec (Tensor1 3 vals))
      \<and> length cols = 3
      \<and> (\<forall>r<3. attains_row_max ([[Fin 0.5, Fin 0.9], [Fin 0.1, Fin 0.2], [Fin 0.45, Fin 0.3]] ! r) (cols ! r)))"
  using argmax_matching [where self = "\<lparr>match_values = [- 1, - 2, 1],
      thresholds = [NegInf, Fin 0.4, Fin 0.5, PosInf], force_match_for_each_col = False\<rparr>"
      and dt = float64
      and C = 2 and B = 1 and R = 2 and xs = "[[[Fin 0.5, Fin 0.9], [Fin 0.45, Fin 0.3]]]"]
    argmax_matching [where self = "\<lparr>match_values = [- 1, - 2, 1],
      thresholds = [NegInf, Fin 0.4, Fin 0.5, PosInf], force_match_for_each_col = False\<rparr>"
      and dt = float64
      and C = 2 and R = 3
      and ys = "[[Fin 0.5, Fin 0.9], [Fin 0.1, Fin 0.2], [Fin 0.45, Fin 0.3]]"]
  by (simp add: unit_interval_def)

text \<open>
  C1 as stated fails with \<open>force_match_for_each_col\<close>: row 1 of the matrix below is the best
  row of column 1 and is matched to it, although its own maximum is in column 0.
\<close>

theorem argmax_matching_counterexample:
  "BoxMatcher_init [Fin 0.5] [0, 1] True =
     Inr \<lparr>match_values = [0, 1], thresholds = [NegInf, Fin 0.5, PosInf],
          force_match_for_each_col = True\<rparr>
   \<and> call float64 \<lparr>match_values = [0, 1], thresholds = [NegInf, Fin 0.5, PosInf],
             force_match_for_each_col = True\<rparr>
        (Rank2 (Tensor2 2 2 [[Fin 0.9, Fin 0.1], [Fin 0.8, Fin 0.2]])) =
       Inr (Vec (Tensor1 2 [0, 1]), Vec (Tensor1 2 [1, 1]))
   \<and> \<not> attains_row_max [Fin 0.8, Fin 0.2] 1"
  by code_simp








text \<open>
  C3 (every column is matched, with the last match value, by some row when
  \<open>force_match_for_each_col\<close> is set) does not hold of the code. Row 0 below is the best row
  of both columns and is recorded for column 0 only; column 1 is the matched column of
  row 1 alone, whose matched value is 0.
\<close>

theorem force_match_misses_column:
  "BoxMatcher_init [Fin 0.5] [0, 1] True =
     Inr \<lparr>match_values = [0, 1], thresholds = [NegInf, Fin 0.5, PosInf],
          force_match_for_each_col = True\<rparr>
   \<and> call float64 \<lparr>match_values = [0, 1], thresholds = [NegInf, Fin 0.5, PosInf],
             force_match_for_each_col = True\<rparr>
        (Rank2 (Tensor2 2 2 [[Fin 0.5, Fin 0.9], [Fin 0.1, Fin 0.2]])) =
       Inr (Vec (Tensor1 2 [0, 1]), Vec (Tensor1 2 [1, 0]))"
  by code_simp

text \<open>
  With \<open>force_match_for_each_col\<close> the padding column takes part in the search for the best
  row of each column, and row 0 is always its best row: below, row 0 is matched to column
  1 of a matrix with one column.
\<close>

lemma padding_column_selected:
  "call float64 \<lparr>match_values = [0, 1], thresholds = [NegInf, Fin 0.5, PosInf],
          force_match_for_each_col = True\<rparr>
        (Rank2 (Tensor2 2 1 [[Fin 0.1], [Fin 0.9]])) =
       Inr (Vec (Tensor1 2 [1, 0]), Vec (Tensor1 2 [1, 1]))"
  by code_simp

theorem batch_independent_witness:
  "call float64 \<lparr>match_values = [0, 1], thresholds = [NegInf, Fin 0.5, PosInf],
            force_match_for_each_col = True\<rparr>
          (Rank3 (Tensor3 2 2 2 [[[Fin 0.5, Fin 0.9], [Fin 0.1, Fin 0.2]],
                                 [[Fin 0.9, Fin 0.1], [Fin 0.8, Fin 0.2]]])) =
        Inr (Mat (Tensor2 2 2 [[0, 1], [0, 1]]), Mat (Tensor2 2 2 [[1, 0], [1, 1]]))
   \<and> call float64 \<lparr>match_values = [0, 1], thresholds = [NegInf, Fin 0.5, PosInf],
            force_match_for_each_col = True\<rparr>
          (Rank2 (Tensor2 2 2 [[Fin 0.9, Fin 0.1], [Fin 0.8, Fin 0.2]])) =
        Inr (Vec (Tensor1 2 [0, 1]), Vec (Tensor1 2 [1, 1]))"
proof -
  let ?M = "\<lparr>match_values = [0, 1], thresholds = [NegInf, Fin 0.5, PosInf],
            force_match_for_each_col = True\<rparr>"
  let ?xs = "[[[Fin 0.5, Fin 0.9], [Fin 0.1, Fin 0.2]],
              [[Fin 0.9, Fin 0.1], [Fin 0.8, Fin 0.2]]]"
  have r3: "call float64 ?M (Rank3 (Tensor3 2 2 2 ?xs)) =
        Inr (Mat (Tensor2 2 2 [[0, 1], [0, 1]]), Mat (Tensor2 2 2 [[1, 0], [1, 1]]))"
    by code_simp
  have imp: "(1::nat) < 2 \<longrightarrow>
     (case call float64 ?M (Rank3 (Tensor3 2 2 2 ?xs)) of
        Inl e \<Rightarrow> call float64 ?M (Rank2 (Tensor2 2 2 (?xs ! 1))) = Inl e
      | Inr (mc, mv) \<Rightarrow>
          (\<exists>cols vals. mc = Mat (Tensor2 2 2 cols) \<and> mv = Mat (Tensor2 2 2 vals)
             \<and> call float64 ?M (Rank2 (Tensor2 2 2 (?xs ! 1))) =
                 Inr (Vec (Tensor1 2 (cols ! 1)), Vec (Tensor1 2 (vals ! 1)))))"
    by (rule batch_independent [THEN conjunct1])
  have "case call float64 ?M (Rank3 (Tensor3 2 2 2 ?xs)) of
        Inl e \<Rightarrow> call float64 ?M (Rank2 (Tensor2 2 2 (?xs ! 1))) = Inl e
      | Inr (mc, mv) \<Rightarrow>
          (\<exists>cols vals. mc = Mat (Tensor2 2 2 cols) \<and> mv = Mat (Tensor2 2 2 vals)
             \<and> call float64 ?M (Rank2 (Tensor2 2 2 (?xs ! 1))) =
                 Inr (Vec (Tensor1 2 (cols ! 1)), Vec (Tensor1 2 (vals ! 1))))"
    by (rule mp [OF imp]) simp
  then have "call float64 ?M (Rank2 (Tensor2 2 2 [[Fin 0.9, Fin 0.1], [Fin 0.8, Fin 0.2]])) =
        Inr (Vec (Tensor1 2 [0, 1]), Vec (Tensor1 2 [1, 1]))"
    unfolding r3 by simp
  with r3 show ?thesis by simp
qed

section \<open>MultiSegmentPacker: trimming, combining and padding\<close>

lemma one_round_facts:
  "one_round b st = (b', st') \<Longrightarrow>
     b' \<le> b \<and> map snd st' = map snd st
     \<and> sum_list (map fst st') + b' = sum_list (map fst st) + b
     \<and> ((\<forall>(k, l)\<in>set st. k \<le> l) \<longrightarrow> (\<forall>(k, l)\<in>set st'. k \<le> l))"
proof (induction b st arbitrary: b' st' rule: one_round.induct)
  case (1 budget)
  then show ?case by simp
next
  case (2 budget kept len rest)
  show ?case
  proof (cases "0 < budget \<and> kept < len")
    case True
    obtain b1 r1 where r: "one_round (budget - 1) rest = (b1, r1)" by force
    from 2(1) [OF True r] have "b1 \<le> budget - 1 \<and> map snd r1 = map snd rest
        \<and> sum_list (map fst r1) + b1 = sum_list (map fst rest) + (budget - 1)
        \<and> ((\<forall>(k, l)\<in>set rest. k \<le> l) \<longrightarrow> (\<forall>(k, l)\<in>set r1. k \<le> l))" .
    moreover from 2(3) True r have "b' = b1" "st' = (Suc kept, len) # r1" by auto
    ultimately show ?thesis using True by auto
  next
    case False
    obtain b1 r1 where r: "one_round budget rest = (b1, r1)" by force
    from 2(2) [OF False r] have "b1 \<le> budget \<and> map snd r1 = map snd rest
        \<and> sum_list (map fst r1) + b1 = sum_list (map fst rest) + budget
        \<and> ((\<forall>(k, l)\<in>set rest. k \<le> l) \<longrightarrow> (\<forall>(k, l)\<in>set r1. k \<le> l))" .
    moreover from 2(3) False r have "b' = b1" "st' = (kept, len) # r1" by auto
    ultimately show ?thesis by auto
  qed
qed

lemma one_round_progress:
  "one_round b st = (b', st') \<Longrightarrow> 0 < b \<Longrightarrow> \<exists>(k, l)\<in>set st. k < l \<Longrightarrow> b' < b"
proof (induction b st arbitrary: b' st' rule: one_round.induct)
  case (1 budget)
  then show ?case by simp
next
  case (2 budget kept len rest)
  show ?case
  proof (cases "0 < budget \<and> kept < len")
    case True
    obtain b1 r1 where r: "one_round (budget - 1) rest = (b1, r1)" by force
    then have "b1 \<le> budget - 1" using one_round_facts by blast
    moreover from 2(3) True r have "b' = b1" by auto
    ultimately show ?thesis using True by linarith
  next
    case False
    obtain b1 r1 where r: "one_round budget rest = (b1, r1)" by force
    from False 2(4,5) have "\<exists>(k, l)\<in>set rest. k < l" by auto
    from 2(2) [OF False r 2(4) this] have "b1 < budget" .
    moreover from 2(3) False r have "b' = b1" by auto
    ultimately show ?thesis by simp
  qed
qed

lemma one_round_exhausted: "\<forall>(k, l)\<in>set st. k = l \<Longrightarrow> one_round b st = (b, st)"
  by (induction st arbitrary: b) auto

lemma rr_inv_step:
  assumes "rr_inv B lens n s"
  shows "rr_inv B lens (Suc n) ((\<lambda>(b, st). one_round b st) s)"
proof -
  obtain b st where s: "s = (b, st)" by (cases s)
  obtain b' st' where r: "one_round b st = (b', st')" by force
  note f = one_round_facts [OF r]
  from assms s have inv: "map snd st = lens" "\<forall>(k, l)\<in>set st. k \<le> l"
    "sum_list (map fst st) + b = B" "b = 0 \<or> b + n \<le> B \<or> (\<forall>(k, l)\<in>set st. k = l)"
    by (auto simp: rr_inv_def)
  have "b' = 0 \<or> b' + Suc n \<le> B \<or> (\<forall>(k, l)\<in>set st'. k = l)"
  proof (cases "\<exists>(k, l)\<in>set st. k < l")
    case True
    show ?thesis
    proof (cases "0 < b")
      case pos: True
      with one_round_progress [OF r] True have "b' < b" by blast
      moreover from True inv(4) pos have "b + n \<le> B" by force
      ultimately show ?thesis by simp
    next
      case False
      with f show ?thesis by simp
    qed
  next
    case False
    with inv(2) have all: "\<forall>(k, l)\<in>set st. k = l" by force
    with r one_round_exhausted [OF all, of b] show ?thesis by simp
  qed
  with f inv show ?thesis
    by (auto simp: rr_inv_def s r)
qed

lemma rr_inv_funpow:
  "rr_inv B lens 0 s \<Longrightarrow> rr_inv B lens n (((\<lambda>(b, st). one_round b st) ^^ n) s)"
  by (induction n) (auto dest: rr_inv_step)

lemma pointwise_le_sum_eq:
  "\<forall>(k, l)\<in>set st. k \<le> l \<Longrightarrow> sum_list (map snd st) \<le> sum_list (map fst st)
     \<Longrightarrow> map fst st = map snd st"
  for st :: "(nat \<times> nat) list"
proof (induction st)
  case Nil
  then show ?case by simp
next
  case (Cons a st)
  obtain k l where a: "a = (k, l)" by (cases a)
  from Cons.prems(1) have le: "sum_list (map fst st) \<le> sum_list (map snd st)"
    by (induction st) auto
  from Cons.prems a le have "k = l" "sum_list (map snd st) \<le> sum_list (map fst st)"
    by auto
  with Cons a show ?case by auto
qed

lemma sum_fst_le_snd:
  "\<forall>(k, l)\<in>set st. k \<le> l \<Longrightarrow> sum_list (map fst st) \<le> sum_list (map snd st)"
  for st :: "(nat \<times> nat) list"
  by (induction st) auto

lemma round_robin_counts_facts:
  "length (round_robin_counts B lens) = length lens
   \<and> (\<forall>i<length lens. round_robin_counts B lens ! i \<le> lens ! i)
   \<and> sum_list (round_robin_counts B lens) = min B (sum_list lens)"
proof -
  let ?s = "((\<lambda>(b, st). one_round b st) ^^ B) (B, map (\<lambda>l. (0, l)) lens)"
  obtain b st where s: "?s = (b, st)" by force
  have "rr_inv B lens 0 (B, map (\<lambda>l. (0, l)) lens)"
    by (simp add: rr_inv_def comp_def)
  from rr_inv_funpow [OF this, of B] s
  have inv: "map snd st = lens" "\<forall>(k, l)\<in>set st. k \<le> l"
    "sum_list (map fst st) + b = B" "b = 0 \<or> (\<forall>(k, l)\<in>set st. k = l)"
    by (auto simp: rr_inv_def)
  have counts: "round_robin_counts B lens = map fst st"
    by (simp add: round_robin_counts_def s)
  have len: "length st = length lens"
    using inv(1) by (metis length_map)
  have pw: "\<forall>i<length lens. map fst st ! i \<le> lens ! i"
  proof (intro allI impI)
    fix i assume i: "i < length lens"
    then have "st ! i \<in> set st" using len by simp
    with inv(2) have "fst (st ! i) \<le> snd (st ! i)" by (auto simp: case_prod_beta)
    moreover have "snd (st ! i) = lens ! i"
      using inv(1) i len by (metis nth_map)
    ultimately show "map fst st ! i \<le> lens ! i" using i len by simp
  qed
  have "sum_list (map fst st) = min B (sum_list lens)"
  proof (cases "b = 0")
    case True
    with inv(3) have "sum_list (map fst st) = B" by simp
    moreover have "sum_list (map fst st) \<le> sum_list lens"
      using sum_fst_le_snd [OF inv(2)] inv(1) by simp
    ultimately show ?thesis by simp
  next
    case False
    with inv(4) have "\<forall>(k, l)\<in>set st. k = l" by simp
    then have "map fst st = map snd st"
      by (induction st) auto
    with inv(1,3) show ?thesis by simp
  qed
  with counts len pw show ?thesis by simp
qed

lemma round_robin_pair_inv:
  "((\<lambda>(b, st). one_round b st) ^^ n) (B, [(0, la), (0, lb)]) = (b, st) \<Longrightarrow>
     \<exists>ka kb. st = [(ka, la), (kb, lb)]
       \<and> (ka < la \<longrightarrow> kb \<le> ka)
       \<and> (kb < lb \<longrightarrow> (if b = 0 then ka \<le> Suc kb else ka \<le> kb))"
proof (induction n arbitrary: b st)
  case 0
  then show ?case by auto
next
  case (Suc n)
  obtain b0 st0 where s0: "((\<lambda>(b, st). one_round b st) ^^ n) (B, [(0, la), (0, lb)]) = (b0, st0)"
    by force
  from Suc.IH [OF s0] obtain ka kb where st0: "st0 = [(ka, la), (kb, lb)]"
    and f1: "ka < la \<longrightarrow> kb \<le> ka"
    and f2: "kb < lb \<longrightarrow> (if b0 = 0 then ka \<le> Suc kb else ka \<le> kb)"
    by blast
  from Suc.prems s0 have step: "one_round b0 st0 = (b, st)" by simp
  define ka' where "ka' = (if 0 < b0 \<and> ka < la then Suc ka else ka)"
  define b1 where "b1 = (if 0 < b0 \<and> ka < la then b0 - 1 else b0)"
  define kb' where "kb' = (if 0 < b1 \<and> kb < lb then Suc kb else kb)"
  define b2 where "b2 = (if 0 < b1 \<and> kb < lb then b1 - 1 else b1)"
  have "one_round b0 [(ka, la), (kb, lb)] = (b2, [(ka', la), (kb', lb)])"
    by (simp add: ka'_def b1_def kb'_def b2_def)
  with step st0 have eq: "b = b2" "st = [(ka', la), (kb', lb)]" by simp_all
  have "ka' < la \<longrightarrow> kb' \<le> ka'"
    using f1 f2 by (auto simp: ka'_def b1_def kb'_def split: if_splits)
  moreover have "kb' < lb \<longrightarrow> (if b2 = 0 then ka' \<le> Suc kb' else ka' \<le> kb')"
    using f1 f2 by (auto simp: ka'_def b1_def kb'_def b2_def split: if_splits)
  ultimately show ?case using eq by blast
qed

lemma round_robin_pair:
  assumes "B \<le> la + lb"
  shows "\<exists>ka kb. round_robin_counts B [la, lb] = [ka, kb]
       \<and> ka \<le> la \<and> kb \<le> lb \<and> ka + kb = B
       \<and> (ka < la \<longrightarrow> kb \<le> ka) \<and> (kb < lb \<longrightarrow> ka \<le> Suc kb)"
proof -
  let ?s = "((\<lambda>(b, st). one_round b st) ^^ B) (B, [(0, la), (0, lb)])"
  obtain b st where s: "?s = (b, st)" by force
  from round_robin_pair_inv [OF s] obtain ka kb where st: "st = [(ka, la), (kb, lb)]"
    and f1: "ka < la \<longrightarrow> kb \<le> ka"
    and f2: "kb < lb \<longrightarrow> (if b = 0 then ka \<le> Suc kb else ka \<le> kb)"
    by blast
  have counts: "round_robin_counts B [la, lb] = [ka, kb]"
    using s st by (simp add: round_robin_counts_def)
  from round_robin_counts_facts [of B "[la, lb]"] assms
  have "ka \<le> la" "kb \<le> lb" "ka + kb = B"
    unfolding counts by (auto simp: nth_Cons' all_conj_distrib split: if_splits)
  moreover from f2 have "kb < lb \<longrightarrow> ka \<le> Suc kb"
    by (auto split: if_splits)
  ultimately show ?thesis using counts f1 by blast
qed

lemma waterfall_trim_facts:
  "length (waterfall_trim B segs) = length segs
   \<and> (\<forall>j<length segs. waterfall_trim B segs ! j = take (B - sum_list (map length (take j segs))) (segs ! j))
   \<and> sum_list (map length (waterfall_trim B segs)) = min B (sum_list (map length segs))"
proof (induction segs arbitrary: B)
  case Nil
  then show ?case by simp
next
  case (Cons s segs)
  note IH = Cons.IH [of "B - length s"]
  have "\<forall>j<length (s # segs). waterfall_trim B (s # segs) ! j =
      take (B - sum_list (map length (take j (s # segs)))) ((s # segs) ! j)"
  proof (intro allI impI)
    fix j assume "j < length (s # segs)"
    then show "waterfall_trim B (s # segs) ! j =
      take (B - sum_list (map length (take j (s # segs)))) ((s # segs) ! j)"
      using IH by (cases j) (simp_all add: diff_diff_left)
  qed
  moreover have "sum_list (map length (waterfall_trim B (s # segs))) =
      min B (sum_list (map length (s # segs)))"
  proof -
    have arith: "min l B + min (B - l) X = min B (l + X)" for l X :: nat
      by (auto simp: min_def)
    from IH have "sum_list (map length (waterfall_trim (B - length s) segs)) =
        min (B - length s) (sum_list (map length segs))" by blast
    then show ?thesis by (simp only: waterfall_trim.simps list.map sum_list.Cons length_take arith)
  qed
  ultimately show ?case using IH by simp
qed

lemma round_robin_trim_facts:
  "length (round_robin_trim B segs) = length segs
   \<and> (\<forall>j<length segs. round_robin_trim B segs ! j =
         take (round_robin_counts B (map length segs) ! j) (segs ! j))
   \<and> sum_list (map length (round_robin_trim B segs)) = min B (sum_list (map length segs))"
proof -
  let ?ks = "round_robin_counts B (map length segs)"
  note f = round_robin_counts_facts [of B "map length segs"]
  from f have len: "length ?ks = length segs" by simp
  from f have le: "\<forall>j<length segs. ?ks ! j \<le> length (segs ! j)" by simp
  have "map length (round_robin_trim B segs) = ?ks"
    using len le by (auto simp: round_robin_trim_def list_eq_iff_nth_eq)
  with f len show ?thesis
    by (simp add: round_robin_trim_def)
qed

lemma trim_inputs_facts:
  "length (trim_inputs p segs) = length segs
   \<and> (\<forall>j<length segs. \<exists>k. trim_inputs p segs ! j = take k (segs ! j))
   \<and> sum_list (map length (trim_inputs p segs)) =
       min (sequence_length p - num_special_tokens p (length segs)) (sum_list (map length segs))"
  using waterfall_trim_facts [of "sequence_length p - num_special_tokens p (length segs)" segs]
    round_robin_trim_facts [of "sequence_length p - num_special_tokens p (length segs)" segs]
  by (cases "truncate_mode p") (auto simp: trim_inputs_def)

lemma prefixes_same_length:
  "length ts = length segs \<Longrightarrow> \<forall>j<length segs. \<exists>k. ts ! j = take k (segs ! j)
     \<Longrightarrow> sum_list (map length segs) \<le> sum_list (map length ts) \<Longrightarrow> ts = segs"
proof (induction ts segs rule: list_induct2)
  case Nil
  then show ?case by simp
next
  case (Cons t ts s segs)
  from Cons.prems(1) [rule_format, of 0] obtain k where t: "t = take k s" by auto
  have rest: "\<forall>j<length segs. \<exists>k. ts ! j = take k (segs ! j)"
    using Cons.prems(1) by (metis Suc_less_eq length_Cons nth_Cons_Suc)
  have le: "sum_list (map length ts) \<le> sum_list (map length segs)"
    using Cons.hyps rest
  proof (induction ts segs rule: list_induct2)
    case Nil
    then show ?case by simp
  next
    case (Cons t ts s segs)
    from Cons.prems [rule_format, of 0] obtain k where "t = take k s" by auto
    moreover have "\<forall>j<length segs. \<exists>k. ts ! j = take k (segs ! j)"
      using Cons.prems by (metis Suc_less_eq length_Cons nth_Cons_Suc)
    ultimately show ?case using Cons.IH by (simp add: add_mono)
  qed
  from t have "length t \<le> length s" by simp
  with le Cons.prems(2) have "length t = length s" "sum_list (map length segs) \<le> sum_list (map length ts)"
    by simp_all
  with t Cons.IH rest show ?case by simp
qed

lemma trim_inputs_fits:
  assumes "sum_list (map length segs) \<le> sequence_length p - num_special_tokens p (length segs)"
  shows "trim_inputs p segs = segs"
  using trim_inputs_facts [of p segs] assms
  by (intro prefixes_same_length) (simp_all add: min_def)

lemma combine_segments_length:
  "segs \<noteq> [] \<Longrightarrow>
   length (fst (combine_segments p i segs)) =
     sum_list (map length segs) + (length segs - 1) * length (sep_value p) + length (end_value p)
   \<and> length (snd (combine_segments p i segs)) = length (fst (combine_segments p i segs))"
proof (induction p i segs rule: combine_segments.induct)
  case (1 p i)
  then show ?case by simp
next
  case (2 p i s)
  then show ?case by simp
next
  case (3 p i s v va)
  then show ?case by (simp add: case_prod_beta)
qed

lemma combine_inputs_length:
  "segs \<noteq> [] \<Longrightarrow>
   length (fst (combine_inputs p segs)) = num_special_tokens p (length segs) + sum_list (map length segs)
   \<and> length (snd (combine_inputs p segs)) = length (fst (combine_inputs p segs))"
  using combine_segments_length [of segs p 0]
  by (simp add: combine_inputs_def case_prod_beta num_special_tokens_def)

lemma length_pad [simp]: "length (pad pside n v xs) = n"
  by (cases pside) (simp_all add: pad_def)

lemma pad_short:
  "length xs \<le> n \<Longrightarrow> pad PadRight n v xs = xs @ replicate (n - length xs) v"
  "length xs \<le> n \<Longrightarrow> pad PadLeft n v xs = replicate (n - length xs) v @ xs"
  by (simp_all add: pad_def)

lemma zip_fst_snd_map: "zip (map (\<lambda>x. fst (f x)) xs) (map (\<lambda>x. snd (f x)) xs) = map f xs"
  by (induction xs) simp_all

lemma examples_call: "examples (packer_call p inp) = map (pack p) (input_examples inp)"
  by (cases inp) (simp_all add: packer_call_def case_prod_beta zip_fst_snd_map comp_def)

text \<open>
  C4. For every input (one sequence or a tuple of segments, batched or not) the token ids
  and the segment ids of every example have exactly \<open>sequence_length\<close> elements. An example
  whose packed length is at most \<open>sequence_length\<close> is the packed sequence with \<open>pad_value\<close>
  (0 for the segment ids) added on the side \<open>padding_side\<close> gives; one whose packed length
  exceeds it is packed from truncated segments, prefixes of the given ones that fill the
  budget exactly.
\<close>

theorem packed_to_sequence_length:
  "examples (packer_call p inp) = map (pack p) (input_examples inp)
   \<and> (\<forall>(t, i)\<in>set (examples (packer_call p inp)).
         length t = sequence_length p \<and> length i = sequence_length p)
   \<and> (segs \<noteq> [] \<longrightarrow>
        (let full = combine_inputs p segs; n = sequence_length p; m = n - length (fst full)
         in (length (fst full) \<le> n \<longrightarrow>
               pack p segs =
                 (case padding_side p of
                    PadRight \<Rightarrow> (fst full @ replicate m (pad_value p), snd full @ replicate m 0)
                  | PadLeft \<Rightarrow> (replicate m (pad_value p) @ fst full, replicate m 0 @ snd full)))
          \<and> (n < length (fst full) \<and> num_special_tokens p (length segs) \<le> n \<longrightarrow>
               (let trimmed = trim_inputs p segs
                in length trimmed = length segs
                   \<and> (\<forall>j<length segs. \<exists>k. trimmed ! j = take k (segs ! j))
                   \<and> sum_list (map length trimmed) = n - num_special_tokens p (length segs)
                   \<and> pack p segs = combine_inputs p trimmed))))"
proof (intro conjI impI)
  show "examples (packer_call p inp) = map (pack p) (input_examples inp)"
    by (rule examples_call)
  show "\<forall>(t, i)\<in>set (examples (packer_call p inp)).
         length t = sequence_length p \<and> length i = sequence_length p"
    by (auto simp: examples_call pack_def case_prod_beta)
next
  assume ne: "segs \<noteq> []"
  let ?n = "sequence_length p"
  let ?S = "num_special_tokens p (length segs)"
  note cl = combine_inputs_length [OF ne, of p]
  have short: "pack p segs =
      (case padding_side p of
         PadRight \<Rightarrow> (fst (combine_inputs p segs) @ replicate (?n - length (fst (combine_inputs p segs))) (pad_value p),
                       snd (combine_inputs p segs) @ replicate (?n - length (fst (combine_inputs p segs))) 0)
       | PadLeft \<Rightarrow> (replicate (?n - length (fst (combine_inputs p segs))) (pad_value p) @ fst (combine_inputs p segs),
                      replicate (?n - length (fst (combine_inputs p segs))) 0 @ snd (combine_inputs p segs)))"
    if fits: "length (fst (combine_inputs p segs)) \<le> ?n"
  proof -
    from fits cl have "sum_list (map length segs) \<le> ?n - ?S" by simp
    then have "trim_inputs p segs = segs" by (rule trim_inputs_fits)
    then show ?thesis
      using fits cl by (cases "padding_side p") (simp_all add: pack_def case_prod_beta pad_short)
  qed
  have long: "length (trim_inputs p segs) = length segs
      \<and> (\<forall>j<length segs. \<exists>k. trim_inputs p segs ! j = take k (segs ! j))
      \<and> sum_list (map length (trim_inputs p segs)) = ?n - ?S
      \<and> pack p segs = combine_inputs p (trim_inputs p segs)"
    if over: "?n < length (fst (combine_inputs p segs))" and sp: "?S \<le> ?n"
  proof -
    note tf = trim_inputs_facts [of p segs]
    from over cl sp have "?n - ?S < sum_list (map length segs)" by simp
    with tf have total: "sum_list (map length (trim_inputs p segs)) = ?n - ?S" by simp
    from tf ne have tne: "trim_inputs p segs \<noteq> []" by auto
    from combine_inputs_length [OF tne, of p] total sp tf
    have "length (fst (combine_inputs p (trim_inputs p segs))) = ?n"
      "length (snd (combine_inputs p (trim_inputs p segs))) = ?n"
      by simp_all
    then have "pack p segs = combine_inputs p (trim_inputs p segs)"
      by (cases "padding_side p") (simp_all add: pack_def case_prod_beta pad_def)
    with tf total show ?thesis by simp
  qed
  show "let full = combine_inputs p segs; n = sequence_length p; m = n - length (fst full)
         in (length (fst full) \<le> n \<longrightarrow>
               pack p segs =
                 (case padding_side p of
                    PadRight \<Rightarrow> (fst full @ replicate m (pad_value p), snd full @ replicate m 0)
                  | PadLeft \<Rightarrow> (replicate m (pad_value p) @ fst full, replicate m 0 @ snd full)))
          \<and> (n < length (fst full) \<and> num_special_tokens p (length segs) \<le> n \<longrightarrow>
               (let trimmed = trim_inputs p segs
                in length trimmed = length segs
                   \<and> (\<forall>j<length segs. \<exists>k. trimmed ! j = take k (segs ! j))
                   \<and> sum_list (map length trimmed) = n - num_special_tokens p (length segs)
                   \<and> pack p segs = combine_inputs p trimmed))"
    unfolding Let_def using short long by blast
qed

text \<open>
  The expected outputs of \<^verbatim>\<open>multi_segment_packer_test.py\<close>, right and left padding. A
  test that gives no \<open>pad_value\<close> pads nothing; the empty string or 0 stands for it.
\<close>

lemma test_trim_single_input_ints:
  "packer_call (MultiSegmentPacker_init 8 (One 1) (One 2) None 0 RoundRobin PadRight) (Sequence [3, 4, 5, 6, 7, 8, 9 :: int]) =
       Packed [1, 3, 4, 5, 6, 7, 8, 2] [0, 0, 0, 0, 0, 0, 0, 0]
   \<and> packer_call (MultiSegmentPacker_init 8 (One 1) (One 2) None 0 RoundRobin PadLeft) (Sequence [3, 4, 5, 6, 7, 8, 9 :: int]) =
       Packed [1, 3, 4, 5, 6, 7, 8, 2] [0, 0, 0, 0, 0, 0, 0, 0]"
  by code_simp

lemma test_trim_single_input_strings:
  "packer_call (MultiSegmentPacker_init 5 (One ''[CLS]'') (One ''[SEP]'') None '''' RoundRobin PadRight) (Sequence [''a'', ''b'', ''c'', ''d'']) =
       Packed [''[CLS]'', ''a'', ''b'', ''c'', ''[SEP]''] [0, 0, 0, 0, 0]
   \<and> packer_call (MultiSegmentPacker_init 5 (One ''[CLS]'') (One ''[SEP]'') None '''' RoundRobin PadLeft) (Sequence [''a'', ''b'', ''c'', ''d'']) =
       Packed [''[CLS]'', ''a'', ''b'', ''c'', ''[SEP]''] [0, 0, 0, 0, 0]"
  by code_simp

lemma test_trim_multiple_inputs_round_robin:
  "packer_call (MultiSegmentPacker_init 7 (One ''[CLS]'') (One ''[SEP]'') None '''' RoundRobin PadRight) (Segments [[''a'', ''b'', ''c''], [''x'', ''y'', ''z'']]) =
       Packed [''[CLS]'', ''a'', ''b'', ''[SEP]'', ''x'', ''y'', ''[SEP]''] [0, 0, 0, 0, 1, 1, 1]
   \<and> packer_call (MultiSegmentPacker_init 7 (One ''[CLS]'') (One ''[SEP]'') None '''' RoundRobin PadLeft) (Segments [[''a'', ''b'', ''c''], [''x'', ''y'', ''z'']]) =
       Packed [''[CLS]'', ''a'', ''b'', ''[SEP]'', ''x'', ''y'', ''[SEP]''] [0, 0, 0, 0, 1, 1, 1]"
  by code_simp

lemma test_trim_multiple_inputs_waterfall:
  "packer_call (MultiSegmentPacker_init 7 (One ''[CLS]'') (One ''[SEP]'') None '''' Waterfall PadRight) (Segments [[''a'', ''b'', ''c''], [''x'', ''y'', ''z'']]) =
       Packed [''[CLS]'', ''a'', ''b'', ''c'', ''[SEP]'', ''x'', ''[SEP]''] [0, 0, 0, 0, 0, 1, 1]
   \<and> packer_call (MultiSegmentPacker_init 7 (One ''[CLS]'') (One ''[SEP]'') None '''' Waterfall PadLeft) (Segments [[''a'', ''b'', ''c''], [''x'', ''y'', ''z'']]) =
       Packed [''[CLS]'', ''a'', ''b'', ''c'', ''[SEP]'', ''x'', ''[SEP]''] [0, 0, 0, 0, 0, 1, 1]"
  by code_simp

lemma test_trim_batched_inputs_round_robin:
  "packer_call (MultiSegmentPacker_init 7 (One ''[CLS]'') (One ''[SEP]'') None '''' RoundRobin PadRight) (BatchedSegments [[[''a'', ''b'', ''c''], [''a'', ''b'', ''c'']], [[''x'', ''y'', ''z''], [''x'', ''y'', ''z'']]]) =
       PackedBatch [[''[CLS]'', ''a'', ''b'', ''[SEP]'', ''x'', ''y'', ''[SEP]''],
                    [''[CLS]'', ''a'', ''b'', ''[SEP]'', ''x'', ''y'', ''[SEP]'']]
                   [[0, 0, 0, 0, 1, 1, 1], [0, 0, 0, 0, 1, 1, 1]]
   \<and> packer_call (MultiSegmentPacker_init 7 (One ''[CLS]'') (One ''[SEP]'') None '''' RoundRobin PadLeft) (BatchedSegments [[[''a'', ''b'', ''c''], [''a'', ''b'', ''c'']], [[''x'', ''y'', ''z''], [''x'', ''y'', ''z'']]]) =
       PackedBatch [[''[CLS]'', ''a'', ''b'', ''[SEP]'', ''x'', ''y'', ''[SEP]''],
                    [''[CLS]'', ''a'', ''b'', ''[SEP]'', ''x'', ''y'', ''[SEP]'']]
                   [[0, 0, 0, 0, 1, 1, 1], [0, 0, 0, 0, 1, 1, 1]]"
  by code_simp

lemma test_trim_batched_inputs_waterfall:
  "packer_call (MultiSegmentPacker_init 7 (One ''[CLS]'') (One ''[SEP]'') None '''' Waterfall PadRight) (BatchedSegments [[[''a'', ''b'', ''c''], [''a'', ''b'']], [[''x'', ''y'', ''z''], [''x'', ''y'', ''z'']]]) =
       PackedBatch [[''[CLS]'', ''a'', ''b'', ''c'', ''[SEP]'', ''x'', ''[SEP]''],
                    [''[CLS]'', ''a'', ''b'', ''[SEP]'', ''x'', ''y'', ''[SEP]'']]
                   [[0, 0, 0, 0, 0, 1, 1], [0, 0, 0, 0, 1, 1, 1]]
   \<and> packer_call (MultiSegmentPacker_init 7 (One ''[CLS]'') (One ''[SEP]'') None '''' Waterfall PadLeft) (BatchedSegments [[[''a'', ''b'', ''c''], [''a'', ''b'']], [[''x'', ''y'', ''z''], [''x'', ''y'', ''z'']]]) =
       PackedBatch [[''[CLS]'', ''a'', ''b'', ''c'', ''[SEP]'', ''x'', ''[SEP]''],
                    [''[CLS]'', ''a'', ''b'', ''[SEP]'', ''x'', ''y'', ''[SEP]'']]
                   [[0, 0, 0, 0, 0, 1, 1], [0, 0, 0, 0, 1, 1, 1]]"
  by code_simp

lemma test_pad_inputs:
  "packer_call (MultiSegmentPacker_init 6 (One ''[CLS]'') (One ''[SEP]'') None ''[PAD]'' RoundRobin PadRight) (Segments [[''a''], [''x'']]) =
       Packed [''[CLS]'', ''a'', ''[SEP]'', ''x'', ''[SEP]'', ''[PAD]''] [0, 0, 0, 1, 1, 0]
   \<and> packer_call (MultiSegmentPacker_init 6 (One ''[CLS]'') (One ''[SEP]'') None ''[PAD]'' RoundRobin PadLeft) (Segments [[''a''], [''x'']]) =
       Packed [''[PAD]'', ''[CLS]'', ''a'', ''[SEP]'', ''x'', ''[SEP]''] [0, 0, 0, 0, 1, 1]"
  by code_simp

lemma test_pad_batched_inputs:
  "packer_call (MultiSegmentPacker_init 7 (One ''[CLS]'') (One ''[SEP]'') None ''[PAD]'' RoundRobin PadRight) (BatchedSegments [[[''a''], [''a'']], [[''x''], [''x'', ''y'']]]) =
       PackedBatch [[''[CLS]'', ''a'', ''[SEP]'', ''x'', ''[SEP]'', ''[PAD]'', ''[PAD]''],
                    [''[CLS]'', ''a'', ''[SEP]'', ''x'', ''y'', ''[SEP]'', ''[PAD]'']]
                   [[0, 0, 0, 1, 1, 0, 0], [0, 0, 0, 1, 1, 1, 0]]
   \<and> packer_call (MultiSegmentPacker_init 7 (One ''[CLS]'') (One ''[SEP]'') None ''[PAD]'' RoundRobin PadLeft) (BatchedSegments [[[''a''], [''a'']], [[''x''], [''x'', ''y'']]]) =
       PackedBatch [[''[PAD]'', ''[PAD]'', ''[CLS]'', ''a'', ''[SEP]'', ''x'', ''[SEP]''],
                    [''[PAD]'', ''[CLS]'', ''a'', ''[SEP]'', ''x'', ''y'', ''[SEP]'']]
                   [[0, 0, 0, 0, 0, 1, 1], [0, 0, 0, 0, 1, 1, 1]]"
  by code_simp

lemma test_list_special_tokens:
  "packer_call (MultiSegmentPacker_init 8 (One ''<s>'') (One ''</s>'') (Some (Many [''</s>'', ''</s>''])) ''<pad>'' RoundRobin PadRight) (BatchedSegments [[[''a'', ''b''], [''a'', ''b'']], [[''x'', ''y''], [''x'']]]) =
       PackedBatch [[''<s>'', ''a'', ''b'', ''</s>'', ''</s>'', ''x'', ''y'', ''</s>''],
                    [''<s>'', ''a'', ''b'', ''</s>'', ''</s>'', ''x'', ''</s>'', ''<pad>'']]
                   [[0, 0, 0, 0, 0, 1, 1, 1], [0, 0, 0, 0, 0, 1, 1, 0]]
   \<and> packer_call (MultiSegmentPacker_init 8 (One ''<s>'') (One ''</s>'') (Some (Many [''</s>'', ''</s>''])) ''<pad>'' RoundRobin PadLeft) (BatchedSegments [[[''a'', ''b''], [''a'', ''b'']], [[''x'', ''y''], [''x'']]]) =
       PackedBatch [[''<s>'', ''a'', ''b'', ''</s>'', ''</s>'', ''x'', ''y'', ''</s>''],
                    [''<pad>'', ''<s>'', ''a'', ''b'', ''</s>'', ''</s>'', ''x'', ''</s>'']]
                   [[0, 0, 0, 0, 0, 1, 1, 1], [0, 0, 0, 0, 0, 0, 1, 1]]"
  by code_simp

text \<open>
  C5. For two segments whose packed length exceeds \<open>sequence_length\<close>, with \<open>B\<close> the budget
  left by the special tokens: waterfall keeps the first \<open>B\<close> tokens of the first segment
  and gives the second what is left, so the second keeps a token only if the first is
  whole; round robin keeps \<open>B\<close> tokens in all, the first segment's share exceeding the
  second's by at most one unless a segment is kept whole, that is \<open>(B + 1) div 2\<close> and
  \<open>B div 2\<close> when both segments are that long. The witness is the example of the claim.
\<close>

theorem truncation_strategies:
  assumes "sequence_length p < num_special_tokens p 2 + length a + length b"
  shows "let B = sequence_length p - num_special_tokens p 2 in
     (truncate_mode p = Waterfall \<longrightarrow>
        trim_inputs p [a, b] = [take B a, take (B - length a) b]
        \<and> (take (B - length a) b \<noteq> [] \<longrightarrow> take B a = a))
     \<and> (truncate_mode p = RoundRobin \<longrightarrow>
        (\<exists>ka kb. trim_inputs p [a, b] = [take ka a, take kb b]
           \<and> ka \<le> length a \<and> kb \<le> length b \<and> ka + kb = B
           \<and> (ka < length a \<longrightarrow> kb \<le> ka) \<and> (kb < length b \<longrightarrow> ka \<le> Suc kb)
           \<and> ((B + 1) div 2 \<le> length a \<and> B div 2 \<le> length b \<longrightarrow>
                ka = (B + 1) div 2 \<and> kb = B div 2)))"
proof -
  define B where "B = sequence_length p - num_special_tokens p 2"
  from assms have over: "B \<le> length a + length b"
    by (simp add: B_def)
  have w: "trim_inputs p [a, b] = [take B a, take (B - length a) b]
        \<and> (take (B - length a) b \<noteq> [] \<longrightarrow> take B a = a)"
    if "truncate_mode p = Waterfall"
    using that by (auto simp: trim_inputs_def B_def numeral_2_eq_2)
  have r: "\<exists>ka kb. trim_inputs p [a, b] = [take ka a, take kb b]
           \<and> ka \<le> length a \<and> kb \<le> length b \<and> ka + kb = B
           \<and> (ka < length a \<longrightarrow> kb \<le> ka) \<and> (kb < length b \<longrightarrow> ka \<le> Suc kb)
           \<and> ((B + 1) div 2 \<le> length a \<and> B div 2 \<le> length b \<longrightarrow>
                ka = (B + 1) div 2 \<and> kb = B div 2)"
    if rr: "truncate_mode p = RoundRobin"
  proof -
    from round_robin_pair [OF over] obtain ka kb
      where c: "round_robin_counts B [length a, length b] = [ka, kb]"
        and f: "ka \<le> length a" "kb \<le> length b" "ka + kb = B"
          "ka < length a \<longrightarrow> kb \<le> ka" "kb < length b \<longrightarrow> ka \<le> Suc kb"
      by blast
    have "trim_inputs p [a, b] = [take ka a, take kb b]"
      using rr c by (simp add: trim_inputs_def round_robin_trim_def B_def numeral_2_eq_2)
    moreover have "ka = (B + 1) div 2 \<and> kb = B div 2"
      if "(B + 1) div 2 \<le> length a \<and> B div 2 \<le> length b"
      using that f over by arith
    ultimately show ?thesis using f by blast
  qed
  show ?thesis
    unfolding Let_def B_def [symmetric] using w r by blast
qed


theorem truncation_strategies_witness:
  "trim_inputs (MultiSegmentPacker_init 7 (One ''[CLS]'') (One ''[SEP]'') None ''[PAD]'' Waterfall PadRight)
      [[''a'', ''b'', ''c''], [''x'', ''y'', ''z'']] = [[''a'', ''b'', ''c''], [''x'']]
   \<and> trim_inputs (MultiSegmentPacker_init 7 (One ''[CLS]'') (One ''[SEP]'') None ''[PAD]'' RoundRobin PadRight)
      [[''a'', ''b'', ''c''], [''x'', ''y'', ''z'']] = [[''a'', ''b''], [''x'', ''y'']]"
proof -
  have w: "trim_inputs (MultiSegmentPacker_init 7 (One ''[CLS]'') (One ''[SEP]'') None ''[PAD]'' Waterfall PadRight)
      [[''a'', ''b'', ''c''], [''x'', ''y'', ''z'']] = [[''a'', ''b'', ''c''], [''x'']]"
    using truncation_strategies
      [of "MultiSegmentPacker_init 7 (One ''[CLS]'') (One ''[SEP]'') None ''[PAD]'' Waterfall PadRight"
        "[''a'', ''b'', ''c'']" "[''x'', ''y'', ''z'']"]
    by (simp add: MultiSegmentPacker_init_def num_special_tokens_def)
  have "\<exists>ka kb. trim_inputs (MultiSegmentPacker_init 7 (One ''[CLS]'') (One ''[SEP]'') None ''[PAD]'' RoundRobin PadRight)
      [[''a'', ''b'', ''c''], [''x'', ''y'', ''z'']] = [take ka [''a'', ''b'', ''c''], take kb [''x'', ''y'', ''z'']]
      \<and> ka = 2 \<and> kb = 2"
    using truncation_strategies
      [of "MultiSegmentPacker_init 7 (One ''[CLS]'') (One ''[SEP]'') None ''[PAD]'' RoundRobin PadRight"
        "[''a'', ''b'', ''c'']" "[''x'', ''y'', ''z'']"]
    by (simp add: MultiSegmentPacker_init_def num_special_tokens_def)
  then have "trim_inputs (MultiSegmentPacker_init 7 (One ''[CLS]'') (One ''[SEP]'') None ''[PAD]'' RoundRobin PadRight)
      [[''a'', ''b'', ''c''], [''x'', ''y'', ''z'']] = [[''a'', ''b''], [''x'', ''y'']]"
    by auto
  with w show ?thesis by simp
qed

theorem packed_to_sequence_length_witness:
  "examples (packer_call (MultiSegmentPacker_init 6 (One ''[CLS]'') (One ''[SEP]'') None ''[PAD]'' RoundRobin PadLeft)
      (Segments [[''a''], [''x'']])) =
     [([''[PAD]'', ''[CLS]'', ''a'', ''[SEP]'', ''x'', ''[SEP]''], [0, 0, 0, 0, 1, 1])]
   \<and> length [''[PAD]'', ''[CLS]'', ''a'', ''[SEP]'', ''x'', ''[SEP]''] =
       sequence_length (MultiSegmentPacker_init 6 (One ''[CLS]'') (One ''[SEP]'') None ''[PAD]'' RoundRobin PadLeft)
   \<and> pack (MultiSegmentPacker_init 7 (One ''[CLS]'') (One ''[SEP]'') None ''[PAD]'' Waterfall PadRight)
        [[''a'', ''b'', ''c''], [''x'', ''y'', ''z'']] =
       ([''[CLS]'', ''a'', ''b'', ''c'', ''[SEP]'', ''x'', ''[SEP]''], [0, 0, 0, 0, 0, 1, 1])"
proof -
  let ?p = "MultiSegmentPacker_init 6 (One ''[CLS]'') (One ''[SEP]'') None ''[PAD]'' RoundRobin PadLeft"
  let ?q = "MultiSegmentPacker_init 7 (One ''[CLS]'') (One ''[SEP]'') None ''[PAD]'' Waterfall PadRight"
  note short = packed_to_sequence_length [of ?p "Segments [[''a''], [''x'']]" "[[''a''], [''x'']]"]
  note long = packed_to_sequence_length [of ?q "Segments [[''a''], [''x'']]"
      "[[''a'', ''b'', ''c''], [''x'', ''y'', ''z'']]"]
  have 1: "pack ?p [[''a''], [''x'']] =
      ([''[PAD]'', ''[CLS]'', ''a'', ''[SEP]'', ''x'', ''[SEP]''], [0, 0, 0, 0, 1, 1])"
    using short
    by (simp add: MultiSegmentPacker_init_def combine_inputs_def Let_def numeral_eq_Suc)
  have 2: "pack ?q [[''a'', ''b'', ''c''], [''x'', ''y'', ''z'']] =
       ([''[CLS]'', ''a'', ''b'', ''c'', ''[SEP]'', ''x'', ''[SEP]''], [0, 0, 0, 0, 0, 1, 1])"
    using long
    by (simp add: MultiSegmentPacker_init_def combine_inputs_def Let_def num_special_tokens_def
        trim_inputs_def numeral_eq_Suc)
  from short 1 2 show ?thesis
    by (simp add: MultiSegmentPacker_init_def)
qed

text \<open>
  C6, as amended: for two segments, the packed sequence is the start, the kept tokens of
  the first segment, the separator, the kept tokens of the second and the end; its
  segment ids are 0 up to and including the separator and 1 from there on; and when
  \<open>sequence_length\<close> is at least the number of special tokens, the output is the packed
  sequence with \<open>pad_value\<close>, and segment id 0, filling the remaining positions after it
  (\<open>padding_side = "right"\<close>) or before it (\<open>"left"\<close>).
\<close>

theorem packed_pair_layout:
  "\<exists>k1 k2. trim_inputs p [a, b] = [k1, k2] \<and> (\<exists>j. k1 = take j a) \<and> (\<exists>j. k2 = take j b)
     \<and> (let T = start_value p @ k1 @ sep_value p @ k2 @ end_value p;
             I = replicate (length (start_value p) + length k1 + length (sep_value p)) 0
                 @ replicate (length k2 + length (end_value p)) 1;
             n = sequence_length p;
             m = n - length T
         in pack p [a, b] = (pad (padding_side p) n (pad_value p) T, pad (padding_side p) n 0 I)
            \<and> (num_special_tokens p 2 \<le> n \<longrightarrow>
                 length T \<le> n
                 \<and> pack p [a, b] =
                     (case padding_side p of
                        PadRight \<Rightarrow> (T @ replicate m (pad_value p), I @ replicate m 0)
                      | PadLeft \<Rightarrow> (replicate m (pad_value p) @ T, replicate m 0 @ I))))"
proof -
  note tf = trim_inputs_facts [of p "[a, b]"]
  from tf have "length (trim_inputs p [a, b]) = 2" by simp
  then obtain k1 k2 where t: "trim_inputs p [a, b] = [k1, k2]"
    by (auto simp: length_Suc_conv numeral_2_eq_2)
  from tf have pre: "\<exists>j. k1 = take j a" "\<exists>j. k2 = take j b"
    unfolding t by (auto simp: nth_Cons' all_conj_distrib numeral_2_eq_2 less_Suc_eq)
  let ?T = "start_value p @ k1 @ sep_value p @ k2 @ end_value p"
  let ?I = "replicate (length (start_value p) + length k1 + length (sep_value p)) (0::nat)
            @ replicate (length k2 + length (end_value p)) 1"
  have pk: "pack p [a, b] = (pad (padding_side p) (sequence_length p) (pad_value p) ?T,
      pad (padding_side p) (sequence_length p) 0 ?I)"
    by (simp add: pack_def t combine_inputs_def replicate_add)
  have fits: "length ?T \<le> sequence_length p" if "num_special_tokens p 2 \<le> sequence_length p"
  proof -
    from tf have "length k1 + length k2 \<le> sequence_length p - num_special_tokens p 2"
      unfolding t by (simp add: numeral_2_eq_2)
    with that show ?thesis
      by (simp add: num_special_tokens_def)
  qed
  have len: "length ?I = length ?T" by simp
  have "pack p [a, b] =
      (case padding_side p of
         PadRight \<Rightarrow> (?T @ replicate (sequence_length p - length ?T) (pad_value p),
                       ?I @ replicate (sequence_length p - length ?T) 0)
       | PadLeft \<Rightarrow> (replicate (sequence_length p - length ?T) (pad_value p) @ ?T,
                      replicate (sequence_length p - length ?T) 0 @ ?I))"
    if "num_special_tokens p 2 \<le> sequence_length p"
    using fits [OF that] len unfolding pk
    by (cases "padding_side p") (simp_all only: side.case pad_short)
  with t pre pk fits show ?thesis
    unfolding Let_def by blast
qed

text \<open>
  C6 as stated fails with \<open>padding_side="left"\<close>: the output of \<^verbatim>\<open>test_pad_inputs\<close> begins
  with the pad value, not with the start value.
\<close>

theorem packed_pair_layout_counterexample:
  "pack (MultiSegmentPacker_init 6 (One ''[CLS]'') (One ''[SEP]'') None ''[PAD]'' RoundRobin PadLeft)
      [[''a''], [''x'']] =
     ([''[PAD]'', ''[CLS]'', ''a'', ''[SEP]'', ''x'', ''[SEP]''], [0, 0, 0, 0, 1, 1])
   \<and> start_value (MultiSegmentPacker_init 6 (One ''[CLS]'') (One ''[SEP]'') None ''[PAD]'' RoundRobin PadLeft)
       = [''[CLS]'']
   \<and> take 1 [''[PAD]'', ''[CLS]'', ''a'', ''[SEP]'', ''x'', ''[SEP]''] \<noteq> [''[CLS]'']"
  by code_simp


theorem packed_pair_layout_witness:
  "pack (MultiSegmentPacker_init 6 (One ''[CLS]'') (One ''[SEP]'') None ''[PAD]'' RoundRobin PadRight)
      [[''a''], [''x'']] =
     ([''[CLS]'', ''a'', ''[SEP]'', ''x'', ''[SEP]'', ''[PAD]''], [0, 0, 0, 1, 1, 0])"
proof -
  have t: "trim_inputs (MultiSegmentPacker_init 6 (One ''[CLS]'') (One ''[SEP]'') None ''[PAD]'' RoundRobin PadRight)
      [[''a''], [''x'']] = [[''a''], [''x'']]"
    by code_simp
  from packed_pair_layout
    [of "MultiSegmentPacker_init 6 (One ''[CLS]'') (One ''[SEP]'') None ''[PAD]'' RoundRobin PadRight"
      "[''a'']" "[''x'']"]
  show ?thesis
    unfolding t
    by (simp add: MultiSegmentPacker_init_def num_special_tokens_def Let_def numeral_eq_Suc pad_def)
qed

section \<open>PaliGemmaBackbone: the functional model\<close>

lemma fold_append_map: "fold (\<lambda>i acc. acc @ [f i]) xs ys = ys @ map f xs"
  by (induction xs arbitrary: ys) simp_all

lemma transformer_layers_init:
  "transformer_layers (PaliGemmaBackbone_init cfg) = map (decoder_block cfg) (py_range (num_layers cfg))"
  by (simp add: PaliGemmaBackbone_init_def Let_def fold_append_map decoder_block_def)

lemma run_fold_layers:
  "run L M C env (fold (\<lambda>l x. Apply l [x, p, r]) ls x0) =
     fold (\<lambda>l v. L l [v, run L M C env p, run L M C env r]) ls (run L M C env x0)"
  by (induction ls arbitrary: x0) simp_all

text \<open>
  C7. For a configuration with \<open>num_layers \<ge> 0\<close>, the constructor builds exactly
  \<open>num_layers\<close> decoder blocks, with indices \<open>0, ..., num_layers - 1\<close> in this order, and the
  model's output, under any meaning of the layers, is the final RMS normalization of the
  blocks applied in this order to the concatenation, along axis 1, of the ViT encoder's
  output on the images and the token embeddings multiplied by \<open>sqrt(hidden_dim)\<close>.
\<close>

theorem backbone_composition:
  assumes "0 \<le> num_layers cfg"
  shows "int (length (transformer_layers (PaliGemmaBackbone_init cfg))) = num_layers cfg
    \<and> transformer_layers (PaliGemmaBackbone_init cfg) =
        map (decoder_block cfg) (map int [0..<nat (num_layers cfg)])
    \<and> (\<exists>vit. vit_encoder (PaliGemmaBackbone_init cfg) = PaliGemmaVit cfg vit
         \<and> run L M C env (outputs (PaliGemmaBackbone_init cfg)) =
           L (RMSNormalization cfg)
             [fold (\<lambda>block x. L block [x, env ''padding_mask'', env ''response_mask''])
                (transformer_layers (PaliGemmaBackbone_init cfg))
                (C [L (PaliGemmaVit cfg vit) [env ''images''],
                    M (L (ReversibleEmbedding cfg) [env ''token_ids''])
                      (Cast (Sqrt (hidden_dim cfg)))] 1)])"
proof (intro conjI)
  show "int (length (transformer_layers (PaliGemmaBackbone_init cfg))) = num_layers cfg"
    using assms by (simp add: transformer_layers_init py_range_def)
  show "transformer_layers (PaliGemmaBackbone_init cfg) =
        map (decoder_block cfg) (map int [0..<nat (num_layers cfg)])"
    by (simp add: transformer_layers_init py_range_def)
  define vit where "vit = (case vit_intermediate_dim cfg of None \<Rightarrow> 4304
      | Some d \<Rightarrow> if d = 0 then 4304 else d)"
  have layers: "vit_encoder (PaliGemmaBackbone_init cfg) = PaliGemmaVit cfg vit"
    "token_embedding (PaliGemmaBackbone_init cfg) = ReversibleEmbedding cfg"
    "layer_norm (PaliGemmaBackbone_init cfg) = RMSNormalization cfg"
    by (simp_all add: PaliGemmaBackbone_init_def Let_def vit_def)
  have "outputs (PaliGemmaBackbone_init cfg) =
      Apply (layer_norm (PaliGemmaBackbone_init cfg))
        [fold (\<lambda>l x. Apply l [x, Input ''padding_mask'' [None] (Some ''int32''),
                                Input ''response_mask'' [None] (Some ''int32'')])
           (transformer_layers (PaliGemmaBackbone_init cfg))
           (Concatenate
              [Apply (vit_encoder (PaliGemmaBackbone_init cfg))
                 [Input ''images'' [Some (image_size cfg), Some (image_size cfg), Some 3] None],
               Multiply (Apply (token_embedding (PaliGemmaBackbone_init cfg))
                           [Input ''token_ids'' [None] (Some ''int32'')])
                        (Cast (Sqrt (hidden_dim cfg)))] 1)]"
    by (simp add: PaliGemmaBackbone_init_def Let_def)
  then have "run L M C env (outputs (PaliGemmaBackbone_init cfg)) =
           L (RMSNormalization cfg)
             [fold (\<lambda>block x. L block [x, env ''padding_mask'', env ''response_mask''])
                (transformer_layers (PaliGemmaBackbone_init cfg))
                (C [L (PaliGemmaVit cfg vit) [env ''images''],
                    M (L (ReversibleEmbedding cfg) [env ''token_ids''])
                      (Cast (Sqrt (hidden_dim cfg)))] 1)]"
    by (simp add: run_fold_layers layers)
  with layers(1) show "\<exists>vit. vit_encoder (PaliGemmaBackbone_init cfg) = PaliGemmaVit cfg vit
         \<and> run L M C env (outputs (PaliGemmaBackbone_init cfg)) =
           L (RMSNormalization cfg)
             [fold (\<lambda>block x. L block [x, env ''padding_mask'', env ''response_mask''])
                (transformer_layers (PaliGemmaBackbone_init cfg))
                (C [L (PaliGemmaVit cfg vit) [env ''images''],
                    M (L (ReversibleEmbedding cfg) [env ''token_ids''])
                      (Cast (Sqrt (hidden_dim cfg)))] 1)]"
    by blast
qed

theorem backbone_composition_witness:
  "length (transformer_layers (PaliGemmaBackbone_init docstring_config)) = 12
   \<and> run trace_layer (\<lambda>v s. v) (\<lambda>vs axis. concat vs) (\<lambda>name. [])
         (outputs (PaliGemmaBackbone_init docstring_config)) =
       [0, 1, 2, 3, 4, 5, 6, 7, 8, 9, 10, 11]"
  using backbone_composition [of docstring_config trace_layer "\<lambda>v s. v" "\<lambda>vs axis. concat vs"
      "\<lambda>name. []"]
  by (auto simp: docstring_config_def decoder_block_def trace_layer_def upt_rec)

end
